theory Spec2Isabelle
  imports Main
begin

section \<open>Python string primitives used by orca_mkinput.py\<close>

text \<open>
  A Python \<open>str\<close> is modelled as a \<open>string\<close>: each \<open>char\<close> stands for one code point
  below 256. Code points above 255 are not represented. \<open>None\<close> for an optional
  string argument is \<open>None :: string option\<close>; Python's truth test on such a value
  (\<open>if method:\<close>) is \<open>truthy\<close>: neither \<open>None\<close> nor the empty string.
\<close>

definition truthy :: "string option \<Rightarrow> bool" where
  "truthy v = (case v of None \<Rightarrow> False | Some s \<Rightarrow> s \<noteq> [])"

text \<open>\<open>str.isspace\<close> on one code point below 256: TAB, LF, VT, FF, CR, the four
  separators 0x1C..0x1F, space, NEL (0x85) and the no-break space (0xA0).\<close>

definition is_space :: "char \<Rightarrow> bool" where
  "is_space c = (c \<in> set [CHR 0x09, CHR 0x0A, CHR 0x0B, CHR 0x0C, CHR 0x0D,
                            CHR 0x1C, CHR 0x1D, CHR 0x1E, CHR 0x1F, CHR 0x20,
                            CHR 0x85, CHR 0xA0])"

text \<open>\<open>str.lower\<close> on one code point below 256: A..Z, and the Latin-1 capitals
  0xC0..0xDE without the multiplication sign 0xD7, move up by 32.\<close>

definition lower_char :: "char \<Rightarrow> char" where
  "lower_char c =
     (let n = (of_char c :: nat) in
      if (65 \<le> n \<and> n \<le> 90) \<or> (192 \<le> n \<and> n \<le> 222 \<and> n \<noteq> 215)
      then char_of (n + 32) else c)"

definition lower :: "string \<Rightarrow> string" where
  "lower s = map lower_char s"

text \<open>\<open>s.startswith(p)\<close>\<close>

definition startswith :: "string \<Rightarrow> string \<Rightarrow> bool" where
  "startswith s p = (take (length p) s = p)"

text \<open>\<open>s.rstrip()\<close>, \<open>s.lstrip()\<close> and \<open>s.strip()\<close> with no argument remove
  whitespace, every kind of it, from the end, the start, or both.\<close>

definition rstrip :: "string \<Rightarrow> string" where
  "rstrip s = rev (dropWhile is_space (rev s))"

definition lstrip :: "string \<Rightarrow> string" where
  "lstrip s = dropWhile is_space s"

definition strip :: "string \<Rightarrow> string" where
  "strip s = lstrip (rstrip s)"

text \<open>\<open>s.split()\<close> with no argument: the maximal runs of non-whitespace, in order.
  \<open>cur\<close> is the run being read.\<close>

fun split_ws_aux :: "string \<Rightarrow> string \<Rightarrow> string list" where
  "split_ws_aux cur [] = (if cur = [] then [] else [cur])"
| "split_ws_aux cur (c # cs) =
     (if is_space c
      then (if cur = [] then split_ws_aux [] cs else cur # split_ws_aux [] cs)
      else split_ws_aux (cur @ [c]) cs)"

definition split_ws :: "string \<Rightarrow> string list" where
  "split_ws s = split_ws_aux [] s"

text \<open>\<open>s.replace(",", " ")\<close>\<close>

definition replace_comma :: "string \<Rightarrow> string" where
  "replace_comma s = map (\<lambda>c. if c = CHR '','' then CHR '' '' else c) s"

text \<open>\<open>sep.join(xs)\<close>\<close>

fun join :: "string \<Rightarrow> string list \<Rightarrow> string" where
  "join sep [] = []"
| "join sep [x] = x"
| "join sep (x # y # ys) = x @ sep @ join sep (y # ys)"

text \<open>\<open>str(n)\<close> for a Python \<open>int\<close>, as an f-string renders it.\<close>

fun str_nat :: "nat \<Rightarrow> string" where
  "str_nat n =
     (if n < 10 then [char_of (48 + n)]
      else str_nat (n div 10) @ [char_of (48 + n mod 10)])"

declare str_nat.simps [simp del]

definition str_int :: "int \<Rightarrow> string" where
  "str_int i = (if i < 0 then ''-'' @ str_nat (nat (- i)) else str_nat (nat i))"


section \<open>Utilities\<close>

text \<open>\<open>_parse_extras\<close>: \<open>None\<close> and the empty list both give no token; every item is
  cut at commas and whitespace.\<close>

definition parse_extras :: "string list option \<Rightarrow> string list" where
  "parse_extras extra_list =
     (case extra_list of
        None \<Rightarrow> []
      | Some items \<Rightarrow>
          concat (map (\<lambda>item. filter (\<lambda>t. t \<noteq> [])
                                 (map strip (split_ws (replace_comma item)))) items))"

text \<open>\<open>_join_bang_tokens\<close>\<close>

definition join_bang_tokens :: "string list \<Rightarrow> string" where
  "join_bang_tokens tokens = ''! '' @ join '' '' (filter (\<lambda>t. t \<noteq> []) tokens)"

text \<open>\<open>JOB_MAP\<close>, and \<open>JOB_MAP.get(job, [])\<close>\<close>

definition JOB_MAP :: "(string \<times> string list) list" where
  "JOB_MAP =
     [(''sp'', []),
      (''opt'', [''Opt'']),
      (''freq'', [''Freq'']),
      (''optfreq'', [''Opt'', ''Freq'']),
      (''optts'', [''OptTS'']),
      (''tddft'', []),
      (''neb'', [''NEB'']),
      (''nebci'', [''NEB-CI'']),
      (''nebts'', [''NEB-TS''])]"

definition JOB_MAP_get :: "string \<Rightarrow> string list" where
  "JOB_MAP_get job = (case map_of JOB_MAP job of None \<Rightarrow> [] | Some kws \<Rightarrow> kws)"

text \<open>The test of line 77: some extra token, lowered, starts with \<open>tightscf\<close> or
  \<open>loosescf\<close>.\<close>

definition has_scf_token :: "string list \<Rightarrow> bool" where
  "has_scf_token extra_tokens =
     list_ex (\<lambda>t. startswith (lower t) ''tightscf'' \<or> startswith (lower t) ''loosescf'')
             extra_tokens"

text \<open>\<open>_make_bang_line\<close>, statement by statement: \<open>bang_toks\<close> is the list \<open>toks\<close> when
  the \<open>return\<close> is reached, each \<open>t\<^sub>i\<close> the list after one more statement.\<close>

definition bang_toks ::
  "string option \<Rightarrow> string option \<Rightarrow> string \<Rightarrow> string option \<Rightarrow> string option \<Rightarrow>
   string option \<Rightarrow> string list \<Rightarrow> string list option \<Rightarrow> string list" where
  "bang_toks method basis job grid_token cpcm smd extra_tokens force_tokens =
     (let t0 = [];
          t1 = (if truthy method then t0 @ [the method] else t0);
          t2 = (if truthy basis \<and> the basis \<notin> set [''None'', ''-'', ''NA'']
                then t1 @ [the basis] else t1);
          t3 = (if truthy grid_token then t2 @ [the grid_token] else t2);
          t4 = (if \<not> has_scf_token extra_tokens then t3 @ [''TightSCF''] else t3);
          t5 = t4 @ JOB_MAP_get job;
          t6 = (if truthy cpcm then t5 @ [''CPCM('' @ the cpcm @ '')''] else t5);
          t7 = (if truthy smd then t6 @ [''SMD('' @ the smd @ '')''] else t6);
          t8 = t7 @ extra_tokens;
          t9 = (case force_tokens of
                  None \<Rightarrow> t8
                | Some ft \<Rightarrow> (if ft \<noteq> [] then t8 @ ft else t8))
      in t9)"

definition make_bang_line ::
  "string option \<Rightarrow> string option \<Rightarrow> string \<Rightarrow> string option \<Rightarrow> string option \<Rightarrow>
   string option \<Rightarrow> string list \<Rightarrow> string list option \<Rightarrow> string" where
  "make_bang_line method basis job grid_token cpcm smd extra_tokens force_tokens =
     join_bang_tokens
       (bang_toks method basis job grid_token cpcm smd extra_tokens force_tokens)"

text \<open>\<open>_pal_block\<close>, \<open>_maxcore_block\<close>, \<open>_scf_block\<close>, \<open>_tddft_block\<close>. The numbers come
  from \<open>argparse\<close> options of \<open>type=int\<close>.\<close>

definition pal_block :: "int \<Rightarrow> string" where
  "pal_block pal = ''%pal\<newline>  nprocs '' @ str_int pal @ ''\<newline>end''"

definition maxcore_block :: "int \<Rightarrow> string" where
  "maxcore_block mb = ''%MaxCore '' @ str_int mb"

definition scf_block :: "int \<Rightarrow> string" where
  "scf_block maxiter = ''%scf\<newline>  MaxIter '' @ str_int maxiter @ ''\<newline>end''"

definition tddft_block :: "int \<Rightarrow> string" where
  "tddft_block nroots = ''%tddft\<newline>  nroots '' @ str_int nroots @ ''\<newline>end''"


section \<open>Literal-block files\<close>

text \<open>The files that can be read: a path is mapped to the text \<open>read_text\<close> returns for
  it, or to \<open>None\<close> when \<open>Path(path).exists()\<close> is false. Writing a file updates the map.
  An output location that cannot be written is outside the model.\<close>

type_synonym files = "string \<rightharpoonup> string"

datatype error = FileNotFoundError string | KeyError string

text \<open>\<open>_read_text_file\<close>\<close>

definition read_text_file :: "files \<Rightarrow> string \<Rightarrow> error + string" where
  "read_text_file fs path =
     (case fs path of
        None \<Rightarrow> Inl (FileNotFoundError (''extra block file not found: '' @ path))
      | Some text \<Rightarrow> Inr (rstrip text @ ''\<newline>''))"






section \<open>Writers\<close>

text \<open>The test of lines 137 and 194: some extra token, lowered, is \<open>moread\<close>.\<close>

definition has_moread :: "string list \<Rightarrow> bool" where
  "has_moread extra_tokens = list_ex (\<lambda>t. lower t = ''moread'') extra_tokens"

text \<open>The geometry-binding text, without the newlines each writer puts around it.\<close>

definition xyzfile_line :: "int \<Rightarrow> int \<Rightarrow> string \<Rightarrow> string" where
  "xyzfile_line charge mult xyzfile =
     ''* xyzfile '' @ str_int charge @ '' '' @ str_int mult @ '' '' @ xyzfile"

definition moinp_line :: "string \<Rightarrow> string" where
  "moinp_line moinp = ''%moinp '' @ [CHR 0x22] @ moinp @ [CHR 0x22]"

text \<open>\<open>write_single_step\<close>, lines 136 to 139: the directive line \<open>header\<close> before the
  parallelism directive is added to it.\<close>

definition single_step_header ::
  "string option \<Rightarrow> string option \<Rightarrow> string \<Rightarrow> string option \<Rightarrow> string option \<Rightarrow>
   string option \<Rightarrow> string list option \<Rightarrow> string option \<Rightarrow> string" where
  "single_step_header method basis job grid cpcm smd extra moinp =
     (let extra_tokens = parse_extras extra;
          extra_tokens = (if truthy moinp \<and> \<not> has_moread extra_tokens
                          then extra_tokens @ [''moread''] else extra_tokens)
      in make_bang_line method basis job grid cpcm smd extra_tokens None)"

text \<open>\<open>write_single_step\<close>, lines 141 to 166: the text handed to \<open>f.write\<close>. An
  \<open>extra_blocks\<close> of \<open>None\<close> is the empty list here, the code only tests its truth.\<close>

definition single_step_content ::
  "string \<Rightarrow> int \<Rightarrow> int \<Rightarrow> string option \<Rightarrow> string option \<Rightarrow> string \<Rightarrow> string option \<Rightarrow>
   string option \<Rightarrow> string option \<Rightarrow> string list option \<Rightarrow> int \<Rightarrow> int \<Rightarrow> int \<Rightarrow>
   string option \<Rightarrow> string \<Rightarrow> string list \<Rightarrow> string" where
  "single_step_content xyzfile charge mult method basis job grid cpcm smd extra
                       pal maxcore_mb nstates moinp pal_style extra_blocks =
     (let header = single_step_header method basis job grid cpcm smd extra moinp;
          blocks = [];
          header = (if pal_style = ''bang''
                    then header @ ''\<newline>\<newline>! PAL'' @ str_int pal else header);
          blocks = (if pal_style = ''bang'' then blocks else blocks @ [pal_block pal]);
          blocks = blocks @ [maxcore_block maxcore_mb];
          blocks = (if job = ''tddft'' then blocks @ [tddft_block nstates] else blocks);
          blocks = blocks @ [scf_block 300];
          content = [];
          content = content @ [header];
          content = (if blocks \<noteq> [] then content @ [join ''\<newline>'' blocks] else content);
          content = (if truthy moinp then content @ [moinp_line (the moinp)] else content);
          content = (if extra_blocks \<noteq> []
                     then content @ [join ''\<newline>'' extra_blocks] else content);
          content = content @
                    [''\<newline>'' @ xyzfile_line charge mult xyzfile @ ''\<newline>\<newline>'']
      in join ''\<newline>\<newline>'' content)"

definition write_single_step ::
  "files \<Rightarrow> string \<Rightarrow> string \<Rightarrow> int \<Rightarrow> int \<Rightarrow> string option \<Rightarrow> string option \<Rightarrow> string \<Rightarrow>
   string option \<Rightarrow> string option \<Rightarrow> string option \<Rightarrow> string list option \<Rightarrow> int \<Rightarrow> int \<Rightarrow>
   int \<Rightarrow> string option \<Rightarrow> string \<Rightarrow> string list \<Rightarrow> files" where
  "write_single_step fs outpath xyzfile charge mult method basis job grid cpcm smd extra
                     pal maxcore_mb nstates moinp pal_style extra_blocks =
     fs(outpath \<mapsto> single_step_content xyzfile charge mult method basis job grid cpcm smd
                       extra pal maxcore_mb nstates moinp pal_style extra_blocks)"

text \<open>One entry of \<open>steps\<close>: the dictionary \<open>_collect_compound_steps\<close> builds.\<close>

record step =
  st_job :: string
  st_method :: "string option"
  st_basis :: "string option"
  st_grid :: "string option"
  st_cpcm :: "string option"
  st_smd :: "string option"
  st_extra_tokens :: "string list"
  st_moinp :: "string option"
  st_nstates :: int

text \<open>\<open>write_compound\<close>, lines 178 to 184: the shared header.\<close>

definition compound_header :: "int \<Rightarrow> int \<Rightarrow> string \<Rightarrow> string" where
  "compound_header pal maxcore_mb pal_style =
     (let header_lines = [];
          header_lines = (if pal_style = ''bang'' then header_lines @ [''! PAL'' @ str_int pal]
                          else if pal_style = ''block''
                          then header_lines @ [''%pal\<newline>  nprocs '' @ str_int pal @ ''\<newline>end'']
                          else header_lines);
          header_lines = header_lines @ [''%MaxCore '' @ str_int maxcore_mb]
      in strip (join ''\<newline>'' header_lines))"

text \<open>Lines 193 to 198: the directive line \<open>bang\<close> of one step.\<close>

definition step_bang :: "step \<Rightarrow> string" where
  "step_bang st =
     (let extra_tokens = st_extra_tokens st in
      if truthy (st_moinp st) \<and> \<not> has_moread extra_tokens
      then make_bang_line (st_method st) (st_basis st) (st_job st) (st_grid st)
             (st_cpcm st) (st_smd st) (extra_tokens @ [''moread'']) None
      else make_bang_line (st_method st) (st_basis st) (st_job st) (st_grid st)
             (st_cpcm st) (st_smd st) (st_extra_tokens st) None)"

text \<open>Lines 192 to 211: one pass of the loop over \<open>enumerate(steps, start=1)\<close>, appending
  to the list \<open>comp\<close> (\<open>comp0\<close> is that list when the pass starts). \<open>step_extra_blocks\<close> is the dictionary of per-step blocks; \<open>None\<close>
  for the whole dictionary is the empty map.\<close>

definition step_body ::
  "string \<Rightarrow> int \<Rightarrow> int \<Rightarrow> (nat \<rightharpoonup> string list) \<Rightarrow> nat \<Rightarrow> step \<Rightarrow> string list \<Rightarrow> string list" where
  "step_body xyzfile charge mult step_extra_blocks i st comp0 =
     (let comp = comp0 @ [''New_step''];
          comp = comp @ [step_bang st];
          comp = (if truthy (st_moinp st) then comp @ [moinp_line (the (st_moinp st))] else comp);
          comp = (if st_job st = ''tddft'' then comp @ [tddft_block (st_nstates st)] else comp);
          comp = comp @ [scf_block 300];
          comp = (case step_extra_blocks i of
                    None \<Rightarrow> comp
                  | Some bl \<Rightarrow> comp @ [rstrip (join ''\<newline>'' bl)]);
          comp = (if i = 1 then comp @ [xyzfile_line charge mult xyzfile @ ''\<newline>''] else comp);
          comp = comp @ [''Step_end\<newline>'']
      in comp)"

fun step_loop ::
  "string \<Rightarrow> int \<Rightarrow> int \<Rightarrow> (nat \<rightharpoonup> string list) \<Rightarrow> nat \<Rightarrow> step list \<Rightarrow> string list \<Rightarrow> string list" where
  "step_loop xyzfile charge mult step_extra_blocks i [] comp0 = comp0"
| "step_loop xyzfile charge mult step_extra_blocks i (st # steps) comp0 =
     step_loop xyzfile charge mult step_extra_blocks (Suc i) steps
       (step_body xyzfile charge mult step_extra_blocks i st comp0)"

text \<open>Lines 189 to 212: the list \<open>comp\<close> that line 213 joins into \<open>body\<close>.\<close>

definition compound_comp ::
  "string \<Rightarrow> int \<Rightarrow> int \<Rightarrow> step list \<Rightarrow> (nat \<rightharpoonup> string list) \<Rightarrow> string list" where
  "compound_comp xyzfile charge mult steps step_extra_blocks =
     (let comp = [];
          comp = comp @ [''%compound''];
          comp = step_loop xyzfile charge mult step_extra_blocks 1 steps comp;
          comp = comp @ [''EndRun'']
      in comp)"

text \<open>Lines 213 to 221: the text written, the three \<open>f.write\<close> calls one after the other.\<close>

definition compound_content ::
  "string \<Rightarrow> int \<Rightarrow> int \<Rightarrow> step list \<Rightarrow> int \<Rightarrow> int \<Rightarrow> string \<Rightarrow> string list \<Rightarrow>
   (nat \<rightharpoonup> string list) \<Rightarrow> string" where
  "compound_content xyzfile charge mult steps pal maxcore_mb pal_style
                    global_extra_blocks step_extra_blocks =
     (let header = compound_header pal maxcore_mb pal_style;
          body = join ''\<newline>'' (compound_comp xyzfile charge mult steps step_extra_blocks);
          w1 = (if header \<noteq> [] then header @ ''\<newline>\<newline>'' else []);
          w2 = (if global_extra_blocks \<noteq> []
                then rstrip (join ''\<newline>'' global_extra_blocks) @ ''\<newline>\<newline>'' else []);
          w3 = body @ ''\<newline>''
      in w1 @ w2 @ w3)"



section \<open>The command line: main\<close>

















section \<open>The directive line, segment by segment\<close>

text \<open>The segments of the directive line as the specification lists them. A value is
  present, set or non-empty when Python's truth test accepts it.\<close>

definition method_segment :: "string option \<Rightarrow> string list" where
  "method_segment method = (if truthy method then [the method] else [])"

definition basis_segment :: "string option \<Rightarrow> string list" where
  "basis_segment basis =
     (if truthy basis \<and> the basis \<noteq> ''None'' \<and> the basis \<noteq> ''-'' \<and> the basis \<noteq> ''NA''
      then [the basis] else [])"

definition grid_segment :: "string option \<Rightarrow> string list" where
  "grid_segment grid = (if truthy grid then [the grid] else [])"

definition convergence_segment :: "string list \<Rightarrow> string list" where
  "convergence_segment extra_tokens = (if has_scf_token extra_tokens then [] else [''TightSCF''])"

definition solvent_segment :: "string \<Rightarrow> string option \<Rightarrow> string list" where
  "solvent_segment model solvent =
     (if truthy solvent then [model @ ''('' @ the solvent @ '')''] else [])"

definition forced_segment :: "string list option \<Rightarrow> string list" where
  "forced_segment force_tokens = (case force_tokens of None \<Rightarrow> [] | Some ft \<Rightarrow> ft)"

text \<open>The restart-read tokens of a token list: those that lower to \<open>moread\<close>.\<close>

definition count_moread :: "string list \<Rightarrow> nat" where
  "count_moread toks = length (filter (\<lambda>t. lower t = ''moread'') toks)"

text \<open>The normalisation of a literal block as the specification words it: the trailing
  newlines trimmed, one newline put back, nothing else touched.\<close>

definition trim_trailing_newlines :: "string \<Rightarrow> string" where
  "trim_trailing_newlines text = rev (dropWhile (\<lambda>c. c = CHR 0x0A) (rev text))"

definition spec_literal_block :: "string \<Rightarrow> string" where
  "spec_literal_block text = trim_trailing_newlines text @ ''\<newline>''"

text \<open>The pieces one step adds to \<open>comp\<close>, from \<open>New_step\<close> to \<open>Step_end\<close>: the block of
  stage \<open>i\<close>. \<open>stage_start\<close> is what the block holds before its SCF section,
  \<open>literal_piece\<close> the piece made of the per-stage literal blocks.\<close>

definition stage_block ::
  "string \<Rightarrow> int \<Rightarrow> int \<Rightarrow> (nat \<rightharpoonup> string list) \<Rightarrow> nat \<Rightarrow> step \<Rightarrow> string list" where
  "stage_block xyzfile charge mult step_extra_blocks i st =
     step_body xyzfile charge mult step_extra_blocks i st []"

definition literal_piece :: "(nat \<rightharpoonup> string list) \<Rightarrow> nat \<Rightarrow> string list" where
  "literal_piece step_extra_blocks i =
     (case step_extra_blocks i of None \<Rightarrow> [] | Some bl \<Rightarrow> [rstrip (join ''\<newline>'' bl)])"

definition stage_start :: "step \<Rightarrow> string list" where
  "stage_start st =
     [''New_step'', step_bang st] @
     (if truthy (st_moinp st) then [moinp_line (the (st_moinp st))] else []) @
     (if st_job st = ''tddft'' then [tddft_block (st_nstates st)] else [])"







text \<open>The lines of a text, as \<open>text.split("\n")\<close> gives them (\<open>cur\<close> is the line being
  read). \<open>stage_lines\<close> are the
  lines of the block of stage \<open>k\<close> in the document, \<open>preamble_lines\<close> those the document
  holds before \<open>%compound\<close>: the header and the global literal blocks, each followed by
  an empty line.\<close>

fun lines_aux :: "string \<Rightarrow> string \<Rightarrow> string list" where
  "lines_aux cur [] = [cur]"
| "lines_aux cur (c # cs) =
     (if c = CHR 0x0A then cur # lines_aux [] cs else lines_aux (cur @ [c]) cs)"

definition lines_of :: "string \<Rightarrow> string list" where
  "lines_of s = lines_aux [] s"

definition stage_lines ::
  "string \<Rightarrow> int \<Rightarrow> int \<Rightarrow> (nat \<rightharpoonup> string list) \<Rightarrow> nat \<Rightarrow> step \<Rightarrow> string list" where
  "stage_lines xyzfile charge mult step_extra_blocks k st =
     concat (map lines_of (stage_block xyzfile charge mult step_extra_blocks k st))"

definition preamble_lines :: "int \<Rightarrow> int \<Rightarrow> string \<Rightarrow> string list \<Rightarrow> string list" where
  "preamble_lines pal maxcore_mb pal_style global_extra_blocks =
     (if compound_header pal maxcore_mb pal_style \<noteq> []
      then lines_of (compound_header pal maxcore_mb pal_style) @ [[]] else []) @
     (if global_extra_blocks \<noteq> []
      then lines_of (rstrip (join ''\<newline>'' global_extra_blocks)) @ [[]] else [])"

text \<open>The texts of a compound document that are made of the caller's strings and enter
  it unchecked: the global literal piece and, for every stage, its directive line, its
  restart section and its literal piece.\<close>

definition passed_through ::
  "step list \<Rightarrow> string list \<Rightarrow> (nat \<rightharpoonup> string list) \<Rightarrow> string list" where
  "passed_through steps global_extra_blocks step_extra_blocks =
     (if global_extra_blocks \<noteq> [] then [rstrip (join ''\<newline>'' global_extra_blocks)] else []) @
     concat (map (\<lambda>(k, st).
                    [step_bang st] @
                    (if truthy (st_moinp st) then [moinp_line (the (st_moinp st))] else []) @
                    literal_piece step_extra_blocks k)
                 (enumerate 1 steps))"


section \<open>Properties of the directive-line builder\<close>

lemma bang_toks_segments:
  "bang_toks meth basis job grid cpcm smd extra_tokens force_tokens =
     method_segment meth @ basis_segment basis @ grid_segment grid @
     convergence_segment extra_tokens @ JOB_MAP_get job @
     solvent_segment ''CPCM'' cpcm @ solvent_segment ''SMD'' smd @
     extra_tokens @ forced_segment force_tokens"
  by (simp add: bang_toks_def method_segment_def basis_segment_def grid_segment_def
      convergence_segment_def solvent_segment_def forced_segment_def Let_def
      split: option.splits)

lemma JOB_MAP_get_unknown:
  "job \<notin> set [''sp'', ''opt'', ''freq'', ''optfreq'', ''optts'', ''tddft'',
               ''neb'', ''nebci'', ''nebts'']
   \<Longrightarrow> JOB_MAP_get job = []"
  by (simp add: JOB_MAP_get_def JOB_MAP_def)

lemma JOB_MAP_get_cases:
  "JOB_MAP_get job \<in> set [[], [''Opt''], [''Freq''], [''Opt'', ''Freq''], [''OptTS''],
                           [''NEB''], [''NEB-CI''], [''NEB-TS'']]"
  by (simp add: JOB_MAP_get_def JOB_MAP_def)

lemma join_Cons: "join sep (x # xs) = x @ concat (map (\<lambda>y. sep @ y) xs)"
  by (induction xs arbitrary: x) simp_all

lemma join_append:
  "xs \<noteq> [] \<Longrightarrow> join sep (xs @ ys) = join sep xs @ concat (map (\<lambda>y. sep @ y) ys)"
  by (cases xs) (simp_all add: join_Cons)

text \<open>
  Claim C1. For every method, basis, job kind, grid, solvents, extra tokens and forced
  tokens, the directive line is the marker \<open>! \<close> followed by the non-empty tokens,
  joined by single spaces, of these segments in this order: method, basis (unless
  absent or one of the sentinels \<open>None\<close>, \<open>-\<close>, \<open>NA\<close>), grid, the default \<open>TightSCF\<close>
  (unless an extra token overrides it), the keywords \<open>JOB_MAP\<close> gives for the job kind,
  \<open>CPCM(solvent)\<close>, \<open>SMD(solvent)\<close>, the extra tokens as supplied, the forced tokens.
  The keyword table is the one the specification prints, and the specification's
  example comes out as it says.
\<close>

theorem directive_line_order:
  "make_bang_line meth basis job grid cpcm smd extra_tokens force_tokens =
     ''! '' @ join '' '' (filter (\<lambda>t. t \<noteq> [])
       (method_segment meth @ basis_segment basis @ grid_segment grid @
        convergence_segment extra_tokens @ JOB_MAP_get job @
        solvent_segment ''CPCM'' cpcm @ solvent_segment ''SMD'' smd @
        extra_tokens @ forced_segment force_tokens))
   \<and> map JOB_MAP_get [''sp'', ''opt'', ''freq'', ''optfreq'', ''optts'', ''tddft'',
                       ''neb'', ''nebci'', ''nebts'']
     = [[], [''Opt''], [''Freq''], [''Opt'', ''Freq''], [''OptTS''], [],
        [''NEB''], [''NEB-CI''], [''NEB-TS'']]
   \<and> make_bang_line (Some ''wB97X-D4'') (Some ''def2-TZVPPD'') ''optfreq'' (Some ''DEFGRID3'')
        None None [] None = ''! wB97X-D4 def2-TZVPPD DEFGRID3 TightSCF Opt Freq''"
  by (simp add: make_bang_line_def join_bang_tokens_def bang_toks_segments
      method_segment_def basis_segment_def grid_segment_def convergence_segment_def
      solvent_segment_def forced_segment_def truthy_def has_scf_token_def
      JOB_MAP_get_def JOB_MAP_def)

lemma has_scf_token_iff:
  "has_scf_token ex \<longleftrightarrow>
     (\<exists>t \<in> set ex. startswith (lower t) ''tightscf'' \<or> startswith (lower t) ''loosescf'')"
  by (simp add: has_scf_token_def list_ex_iff)

lemma startswith_refl: "startswith p p"
  by (simp add: startswith_def)

lemma count_list_JOB_MAP_get_TightSCF: "count_list (JOB_MAP_get job) ''TightSCF'' = 0"
  using JOB_MAP_get_cases [of job] by auto

lemma count_list_solvent_segment_TightSCF: "count_list (solvent_segment ''CPCM'' c) ''TightSCF'' = 0"
  "count_list (solvent_segment ''SMD'' c) ''TightSCF'' = 0"
  by (simp_all add: solvent_segment_def)

text \<open>
  Claim C3. When some extra token, lowered, starts with \<open>tightscf\<close> or \<open>loosescf\<close> (as a
  token that lowers to \<open>tightscf\<close> itself does), the builder inserts no default
  convergence token: the line is built from the other segments alone and holds
  \<open>TightSCF\<close> exactly as often as the tokens the caller supplied do. When no extra token
  is of that kind, \<open>TightSCF\<close> is inserted once, between the grid and the job keywords.
\<close>

theorem convergence_default_override:
  "((\<exists>t \<in> set extra_tokens.
        startswith (lower t) ''tightscf'' \<or> startswith (lower t) ''loosescf'') \<longrightarrow>
      make_bang_line meth basis job grid cpcm smd extra_tokens force_tokens =
        join_bang_tokens
          (method_segment meth @ basis_segment basis @ grid_segment grid @
           JOB_MAP_get job @ solvent_segment ''CPCM'' cpcm @ solvent_segment ''SMD'' smd @
           extra_tokens @ forced_segment force_tokens)
      \<and> count_list (bang_toks meth basis job grid cpcm smd extra_tokens force_tokens)
           ''TightSCF''
        = count_list (method_segment meth @ basis_segment basis @ grid_segment grid @
                      extra_tokens @ forced_segment force_tokens) ''TightSCF'')
   \<and> ((\<exists>t \<in> set extra_tokens. lower t = ''tightscf'') \<longrightarrow>
        (\<exists>t \<in> set extra_tokens.
           startswith (lower t) ''tightscf'' \<or> startswith (lower t) ''loosescf''))
   \<and> (\<not> (\<exists>t \<in> set extra_tokens.
            startswith (lower t) ''tightscf'' \<or> startswith (lower t) ''loosescf'') \<longrightarrow>
        make_bang_line meth basis job grid cpcm smd extra_tokens force_tokens =
          join_bang_tokens
            (method_segment meth @ basis_segment basis @ grid_segment grid @
             [''TightSCF''] @
             JOB_MAP_get job @ solvent_segment ''CPCM'' cpcm @ solvent_segment ''SMD'' smd @
             extra_tokens @ forced_segment force_tokens)
        \<and> count_list (bang_toks meth basis job grid cpcm smd extra_tokens force_tokens)
             ''TightSCF''
          = 1 + count_list (method_segment meth @ basis_segment basis @ grid_segment grid @
                            extra_tokens @ forced_segment force_tokens) ''TightSCF'')"
proof (intro conjI impI)
  assume h: "\<exists>t \<in> set extra_tokens.
        startswith (lower t) ''tightscf'' \<or> startswith (lower t) ''loosescf''"
  then have c: "convergence_segment extra_tokens = []"
    by (simp add: convergence_segment_def has_scf_token_iff)
  show "make_bang_line meth basis job grid cpcm smd extra_tokens force_tokens =
        join_bang_tokens
          (method_segment meth @ basis_segment basis @ grid_segment grid @
           JOB_MAP_get job @ solvent_segment ''CPCM'' cpcm @ solvent_segment ''SMD'' smd @
           extra_tokens @ forced_segment force_tokens)"
    by (simp add: make_bang_line_def bang_toks_segments c)
  show "count_list (bang_toks meth basis job grid cpcm smd extra_tokens force_tokens)
           ''TightSCF''
        = count_list (method_segment meth @ basis_segment basis @ grid_segment grid @
                      extra_tokens @ forced_segment force_tokens) ''TightSCF''"
    by (simp add: bang_toks_segments c count_list_JOB_MAP_get_TightSCF
        count_list_solvent_segment_TightSCF)
next
  assume "\<exists>t \<in> set extra_tokens. lower t = ''tightscf''"
  then show "\<exists>t \<in> set extra_tokens.
        startswith (lower t) ''tightscf'' \<or> startswith (lower t) ''loosescf''"
    by (metis startswith_refl)
next
  assume h: "\<not> (\<exists>t \<in> set extra_tokens.
        startswith (lower t) ''tightscf'' \<or> startswith (lower t) ''loosescf'')"
  then have c: "convergence_segment extra_tokens = [''TightSCF'']"
    by (simp add: convergence_segment_def has_scf_token_iff)
  show "make_bang_line meth basis job grid cpcm smd extra_tokens force_tokens =
          join_bang_tokens
            (method_segment meth @ basis_segment basis @ grid_segment grid @
             [''TightSCF''] @
             JOB_MAP_get job @ solvent_segment ''CPCM'' cpcm @ solvent_segment ''SMD'' smd @
             extra_tokens @ forced_segment force_tokens)"
    by (simp add: make_bang_line_def bang_toks_segments c)
  show "count_list (bang_toks meth basis job grid cpcm smd extra_tokens force_tokens)
             ''TightSCF''
          = 1 + count_list (method_segment meth @ basis_segment basis @ grid_segment grid @
                            extra_tokens @ forced_segment force_tokens) ''TightSCF''"
    by (simp add: bang_toks_segments c count_list_JOB_MAP_get_TightSCF
        count_list_solvent_segment_TightSCF)
qed

theorem convergence_default_override_witness:
  "make_bang_line (Some ''HF'') (Some ''def2-SVP'') ''opt'' None None None
       [''SlowConv'', ''tightSCF''] None
     = ''! HF def2-SVP Opt SlowConv tightSCF''
   \<and> make_bang_line (Some ''HF'') (Some ''def2-SVP'') ''opt'' None None None
       [''SlowConv''] None
     = ''! HF def2-SVP TightSCF Opt SlowConv''"
proof -
  have l1: "lower ''tightSCF'' = ''tightscf''" by code_simp
  have l3: "lower ''SlowConv'' = ''slowconv''" by code_simp
  have h1: "\<exists>t \<in> set [''SlowConv'', ''tightSCF''].
        startswith (lower t) ''tightscf'' \<or> startswith (lower t) ''loosescf''"
    by (simp add: l1 startswith_def)
  have h3: "\<not> (\<exists>t \<in> set [''SlowConv''].
        startswith (lower t) ''tightscf'' \<or> startswith (lower t) ''loosescf'')"
    by (simp add: l3 startswith_def)
  have s: "method_segment (Some ''HF'') = [''HF'']"
    "basis_segment (Some ''def2-SVP'') = [''def2-SVP'']"
    "grid_segment None = []" "JOB_MAP_get ''opt'' = [''Opt'']"
    "solvent_segment ''CPCM'' None = []" "solvent_segment ''SMD'' None = []"
    "forced_segment None = []"
    by (simp_all add: method_segment_def basis_segment_def grid_segment_def JOB_MAP_get_def
        JOB_MAP_def solvent_segment_def forced_segment_def truthy_def)
  from h1 convergence_default_override
         [where extra_tokens = "[''SlowConv'', ''tightSCF'']" and meth = "Some ''HF''"
            and basis = "Some ''def2-SVP''" and job = "''opt''" and grid = None
            and cpcm = None and smd = None and force_tokens = None]
  have "make_bang_line (Some ''HF'') (Some ''def2-SVP'') ''opt'' None None None
          [''SlowConv'', ''tightSCF''] None
        = join_bang_tokens
          (method_segment (Some ''HF'') @ basis_segment (Some ''def2-SVP'') @ grid_segment None @
           JOB_MAP_get ''opt'' @ solvent_segment ''CPCM'' None @ solvent_segment ''SMD'' None @
           [''SlowConv'', ''tightSCF''] @ forced_segment None)"
    by blast
  then have a: "make_bang_line (Some ''HF'') (Some ''def2-SVP'') ''opt'' None None None
       [''SlowConv'', ''tightSCF''] None = ''! HF def2-SVP Opt SlowConv tightSCF''"
    by (simp add: s join_bang_tokens_def)
  from h3 convergence_default_override
         [where extra_tokens = "[''SlowConv'']" and meth = "Some ''HF''"
            and basis = "Some ''def2-SVP''" and job = "''opt''" and grid = None
            and cpcm = None and smd = None and force_tokens = None]
  have "make_bang_line (Some ''HF'') (Some ''def2-SVP'') ''opt'' None None None
          [''SlowConv''] None
        = join_bang_tokens
          (method_segment (Some ''HF'') @ basis_segment (Some ''def2-SVP'') @ grid_segment None @
           [''TightSCF''] @
           JOB_MAP_get ''opt'' @ solvent_segment ''CPCM'' None @ solvent_segment ''SMD'' None @
           [''SlowConv''] @ forced_segment None)"
    by blast
  then have c: "make_bang_line (Some ''HF'') (Some ''def2-SVP'') ''opt'' None None None
       [''SlowConv''] None = ''! HF def2-SVP TightSCF Opt SlowConv''"
    by (simp add: s join_bang_tokens_def)
  from a c show ?thesis by simp
qed

text \<open>
  Claim C9. With a CPCM solvent and an SMD solvent both set, the builder raises nothing
  and rejects nothing: the token list holds \<open>CPCM(c)\<close> and, directly after it, \<open>SMD(s)\<close>,
  between the job keywords and the extra tokens, and the directive line holds the text
  \<open>CPCM(c) SMD(s)\<close>.
\<close>

theorem both_solvents_adjacent:
  assumes "cpcm = Some c" and "c \<noteq> []" and "smd = Some s" and "s \<noteq> []"
  shows "bang_toks meth basis job grid cpcm smd extra_tokens force_tokens =
           (method_segment meth @ basis_segment basis @ grid_segment grid @
            convergence_segment extra_tokens @ JOB_MAP_get job) @
           [''CPCM('' @ c @ '')'', ''SMD('' @ s @ '')''] @
           extra_tokens @ forced_segment force_tokens
         \<and> (\<exists>before after.
               make_bang_line meth basis job grid cpcm smd extra_tokens force_tokens =
                 before @ ''CPCM('' @ c @ '') SMD('' @ s @ '')'' @ after)"
proof
  have sv: "solvent_segment ''CPCM'' cpcm = [''CPCM('' @ c @ '')'']"
           "solvent_segment ''SMD'' smd = [''SMD('' @ s @ '')'']"
    using assms by (simp_all add: solvent_segment_def truthy_def)
  show toks: "bang_toks meth basis job grid cpcm smd extra_tokens force_tokens =
           (method_segment meth @ basis_segment basis @ grid_segment grid @
            convergence_segment extra_tokens @ JOB_MAP_get job) @
           [''CPCM('' @ c @ '')'', ''SMD('' @ s @ '')''] @
           extra_tokens @ forced_segment force_tokens"
    by (simp add: bang_toks_segments sv)
  define A where "A = filter (\<lambda>t. t \<noteq> [])
           (method_segment meth @ basis_segment basis @ grid_segment grid @
            convergence_segment extra_tokens @ JOB_MAP_get job)"
  define B where "B = filter (\<lambda>t. t \<noteq> []) (extra_tokens @ forced_segment force_tokens)"
  have line: "make_bang_line meth basis job grid cpcm smd extra_tokens force_tokens =
          ''! '' @ join '' '' (A @ [''CPCM('' @ c @ '')'', ''SMD('' @ s @ '')''] @ B)"
    by (simp add: make_bang_line_def join_bang_tokens_def toks A_def B_def)
  show "\<exists>before after.
               make_bang_line meth basis job grid cpcm smd extra_tokens force_tokens =
                 before @ ''CPCM('' @ c @ '') SMD('' @ s @ '')'' @ after"
  proof (cases "A = []")
    case True
    have "make_bang_line meth basis job grid cpcm smd extra_tokens force_tokens =
            ''! '' @ ''CPCM('' @ c @ '') SMD('' @ s @ '')'' @ concat (map (\<lambda>y. '' '' @ y) B)"
      by (simp add: line True join_Cons)
    then show ?thesis by blast
  next
    case False
    have "make_bang_line meth basis job grid cpcm smd extra_tokens force_tokens =
            (''! '' @ join '' '' A @ '' '') @ ''CPCM('' @ c @ '') SMD('' @ s @ '')'' @
            concat (map (\<lambda>y. '' '' @ y) B)"
      by (simp add: line False join_append)
    then show ?thesis by blast
  qed
qed

theorem both_solvents_adjacent_witness:
  "make_bang_line (Some ''HF'') None ''sp'' None (Some ''water'') (Some ''toluene'') [] None
     = ''! HF TightSCF CPCM(water) SMD(toluene)''
   \<and> bang_toks (Some ''HF'') None ''sp'' None (Some ''water'') (Some ''toluene'') [] None
     = [''HF'', ''TightSCF'', ''CPCM(water)'', ''SMD(toluene)'']"
proof -
  have s: "method_segment (Some ''HF'') = [''HF'']" "basis_segment None = []"
    "grid_segment None = []" "convergence_segment [] = [''TightSCF'']"
    "JOB_MAP_get ''sp'' = []" "forced_segment None = []"
    by (simp_all add: method_segment_def basis_segment_def grid_segment_def JOB_MAP_get_def
        JOB_MAP_def convergence_segment_def has_scf_token_def forced_segment_def truthy_def)
  from both_solvents_adjacent
         [where cpcm = "Some ''water''" and c = "''water''" and smd = "Some ''toluene''"
            and s = "''toluene''" and meth = "Some ''HF''" and basis = None
            and job = "''sp''" and grid = None and extra_tokens = "[]"
            and force_tokens = None]
  have t: "bang_toks (Some ''HF'') None ''sp'' None (Some ''water'') (Some ''toluene'') [] None
     = [''HF'', ''TightSCF'', ''CPCM(water)'', ''SMD(toluene)'']"
    by (simp add: s)
  then show ?thesis
    by (simp add: make_bang_line_def join_bang_tokens_def)
qed

text \<open>
  Claim C10. For a job kind that is none of the nine keys of \<open>JOB_MAP\<close>, the lookup gives
  the empty keyword list, the builder returns the line it returns for \<open>sp\<close>, and no
  keyword token stands between the convergence segment and the solvent segments. The
  builder has no failing branch: \<open>make_bang_line\<close> is a total function of its arguments.
\<close>

theorem unknown_job_kind_no_keywords:
  assumes "job \<notin> set [''sp'', ''opt'', ''freq'', ''optfreq'', ''optts'', ''tddft'',
                       ''neb'', ''nebci'', ''nebts'']"
  shows "JOB_MAP_get job = []
         \<and> bang_toks meth basis job grid cpcm smd extra_tokens force_tokens =
             method_segment meth @ basis_segment basis @ grid_segment grid @
             convergence_segment extra_tokens @
             solvent_segment ''CPCM'' cpcm @ solvent_segment ''SMD'' smd @
             extra_tokens @ forced_segment force_tokens
         \<and> make_bang_line meth basis job grid cpcm smd extra_tokens force_tokens =
             make_bang_line meth basis ''sp'' grid cpcm smd extra_tokens force_tokens"
proof -
  have u: "JOB_MAP_get job = []"
    using assms by (rule JOB_MAP_get_unknown)
  have sp: "JOB_MAP_get ''sp'' = []"
    by (simp add: JOB_MAP_get_def JOB_MAP_def)
  show ?thesis
    by (simp add: u sp make_bang_line_def bang_toks_segments)
qed

theorem unknown_job_kind_no_keywords_witness:
  "make_bang_line (Some ''HF'') (Some ''def2-SVP'') ''scan'' (Some ''DEFGRID3'') None None [] None
     = ''! HF def2-SVP DEFGRID3 TightSCF''
   \<and> JOB_MAP_get ''scan'' = []"
proof -
  have h: "''scan'' \<notin> set [''sp'', ''opt'', ''freq'', ''optfreq'', ''optts'', ''tddft'',
                       ''neb'', ''nebci'', ''nebts'']"
    by simp
  have s: "method_segment (Some ''HF'') = [''HF'']" "basis_segment (Some ''def2-SVP'') = [''def2-SVP'']"
    "grid_segment (Some ''DEFGRID3'') = [''DEFGRID3'']" "convergence_segment [] = [''TightSCF'']"
    "solvent_segment ''CPCM'' None = []" "solvent_segment ''SMD'' None = []"
    "forced_segment None = []"
    by (simp_all add: method_segment_def basis_segment_def grid_segment_def solvent_segment_def
        convergence_segment_def has_scf_token_def forced_segment_def truthy_def)
  from unknown_job_kind_no_keywords [OF h, where meth = "Some ''HF''"
         and basis = "Some ''def2-SVP''" and grid = "Some ''DEFGRID3''" and cpcm = None
         and smd = None and extra_tokens = "[]" and force_tokens = None]
  have "JOB_MAP_get ''scan'' = []"
    and "bang_toks (Some ''HF'') (Some ''def2-SVP'') ''scan'' (Some ''DEFGRID3'') None None [] None
          = [''HF'', ''def2-SVP'', ''DEFGRID3'', ''TightSCF'']"
    by (simp_all add: s)
  then show ?thesis
    by (simp add: make_bang_line_def join_bang_tokens_def)
qed

lemma JOB_MAP_get_opt: "JOB_MAP_get ''opt'' = [''Opt'']"
  by (simp add: JOB_MAP_get_def JOB_MAP_def)

lemma count_list_fixed_segments_Opt:
  "count_list (convergence_segment ex) ''Opt'' = 0"
  "count_list (solvent_segment ''CPCM'' c) ''Opt'' = 0"
  "count_list (solvent_segment ''SMD'' c) ''Opt'' = 0"
  by (simp_all add: convergence_segment_def solvent_segment_def)

text \<open>
  Claim C5, as the code has it. For the job kind \<open>opt\<close> the job-keyword segment is the
  single token \<open>Opt\<close>, directly after the method, basis, grid and convergence tokens and
  directly before the solvent tokens. The extra tokens are appended as supplied, with no
  deduplication, so the line holds \<open>Opt\<close> once more than the caller's own tokens (method,
  basis, grid, extra and forced tokens) do: exactly once when none of them is \<open>Opt\<close>.
\<close>

theorem opt_keyword_position_and_count:
  "bang_toks meth basis ''opt'' grid cpcm smd extra_tokens force_tokens =
     (method_segment meth @ basis_segment basis @ grid_segment grid @
      convergence_segment extra_tokens) @ [''Opt''] @
     (solvent_segment ''CPCM'' cpcm @ solvent_segment ''SMD'' smd @
      extra_tokens @ forced_segment force_tokens)
   \<and> count_list (bang_toks meth basis ''opt'' grid cpcm smd extra_tokens force_tokens) ''Opt''
     = 1 + count_list (method_segment meth @ basis_segment basis @ grid_segment grid @
                       extra_tokens @ forced_segment force_tokens) ''Opt''
   \<and> (''Opt'' \<notin> set (method_segment meth @ basis_segment basis @ grid_segment grid @
                       extra_tokens @ forced_segment force_tokens) \<longrightarrow>
        count_list (bang_toks meth basis ''opt'' grid cpcm smd extra_tokens force_tokens)
          ''Opt'' = 1)"
proof -
  have toks: "bang_toks meth basis ''opt'' grid cpcm smd extra_tokens force_tokens =
     (method_segment meth @ basis_segment basis @ grid_segment grid @
      convergence_segment extra_tokens) @ [''Opt''] @
     (solvent_segment ''CPCM'' cpcm @ solvent_segment ''SMD'' smd @
      extra_tokens @ forced_segment force_tokens)"
    by (simp add: bang_toks_segments JOB_MAP_get_opt)
  have cnt: "count_list (bang_toks meth basis ''opt'' grid cpcm smd extra_tokens force_tokens)
       ''Opt''
     = 1 + count_list (method_segment meth @ basis_segment basis @ grid_segment grid @
                       extra_tokens @ forced_segment force_tokens) ''Opt''"
    by (simp add: toks count_list_fixed_segments_Opt)
  have "count_list (method_segment meth @ basis_segment basis @ grid_segment grid @
                       extra_tokens @ forced_segment force_tokens) ''Opt'' = 0"
    if "''Opt'' \<notin> set (method_segment meth @ basis_segment basis @ grid_segment grid @
                       extra_tokens @ forced_segment force_tokens)"
    using that by (simp only: count_list_0_iff not_False_eq_True)
  with toks cnt show ?thesis by simp
qed

theorem opt_keyword_position_and_count_witness:
  "bang_toks (Some ''wB97X-D4'') (Some ''def2-TZVP'') ''opt'' (Some ''DEFGRID3'') None
     (Some ''water'') [''SlowConv''] None
     = [''wB97X-D4'', ''def2-TZVP'', ''DEFGRID3'', ''TightSCF'', ''Opt'', ''SMD(water)'',
        ''SlowConv'']
   \<and> count_list (bang_toks (Some ''wB97X-D4'') (Some ''def2-TZVP'') ''opt'' (Some ''DEFGRID3'')
        None (Some ''water'') [''SlowConv''] None) ''Opt'' = 1"
proof -
  have l: "lower ''SlowConv'' = ''slowconv''" by code_simp
  have s: "method_segment (Some ''wB97X-D4'') = [''wB97X-D4'']"
    "basis_segment (Some ''def2-TZVP'') = [''def2-TZVP'']"
    "grid_segment (Some ''DEFGRID3'') = [''DEFGRID3'']"
    "convergence_segment [''SlowConv''] = [''TightSCF'']"
    "solvent_segment ''CPCM'' None = []" "solvent_segment ''SMD'' (Some ''water'') = [''SMD(water)'']"
    "forced_segment None = []"
    by (simp_all add: method_segment_def basis_segment_def grid_segment_def solvent_segment_def
        convergence_segment_def has_scf_token_def forced_segment_def truthy_def l startswith_def)
  have h: "''Opt'' \<notin> set (method_segment (Some ''wB97X-D4'') @ basis_segment (Some ''def2-TZVP'') @
              grid_segment (Some ''DEFGRID3'') @ [''SlowConv''] @ forced_segment None)"
    by (simp add: s)
  from h opt_keyword_position_and_count
         [where meth = "Some ''wB97X-D4''" and basis = "Some ''def2-TZVP''"
            and grid = "Some ''DEFGRID3''" and cpcm = None and smd = "Some ''water''"
            and extra_tokens = "[''SlowConv'']" and force_tokens = None]
  show ?thesis
    by (simp add: s)
qed

text \<open>
  The claim as worded, over all extra-token sequences, fails: with the extra token \<open>Opt\<close>
  the line for an \<open>opt\<close> job holds the keyword twice, the second time after the solvent
  token.
\<close>

theorem opt_keyword_once_counterexample:
  "make_bang_line (Some ''wB97X-D4'') (Some ''def2-TZVP'') ''opt'' (Some ''DEFGRID3'') None
     (Some ''water'') [''Opt''] None
     = ''! wB97X-D4 def2-TZVP DEFGRID3 TightSCF Opt SMD(water) Opt''
   \<and> count_list (bang_toks (Some ''wB97X-D4'') (Some ''def2-TZVP'') ''opt'' (Some ''DEFGRID3'')
        None (Some ''water'') [''Opt''] None) ''Opt'' = 2"
proof -
  have l: "lower ''Opt'' = ''opt''" by code_simp
  have s: "has_scf_token [''Opt''] = False"
    by (simp add: has_scf_token_def l startswith_def)
  have t: "bang_toks (Some ''wB97X-D4'') (Some ''def2-TZVP'') ''opt'' (Some ''DEFGRID3'') None
     (Some ''water'') [''Opt''] None
     = [''wB97X-D4'', ''def2-TZVP'', ''DEFGRID3'', ''TightSCF'', ''Opt'', ''SMD(water)'', ''Opt'']"
    by (simp add: bang_toks_def s truthy_def JOB_MAP_get_def JOB_MAP_def)
  show ?thesis
    by (simp add: make_bang_line_def join_bang_tokens_def t)
qed

lemma lower_simps: "lower [] = []" "lower (c # cs) = lower_char c # lower cs"
  by (simp_all add: lower_def)

lemma lower_moread: "lower ''moread'' = ''moread''"
  by code_simp

lemma lower_char_C: "lower_char CHR ''C'' = CHR ''c''" "lower_char CHR ''S'' = CHR ''s''"
  "lower_char CHR ''T'' = CHR ''t''" "lower_char CHR ''O'' = CHR ''o''"
  "lower_char CHR ''F'' = CHR ''f''" "lower_char CHR ''N'' = CHR ''n''"
  by code_simp+

lemma has_scf_token_append_moread: "has_scf_token (ex @ [''moread'']) = has_scf_token ex"
  by (simp add: has_scf_token_def lower_moread startswith_def)

lemma count_moread_append: "count_moread (xs @ ys) = count_moread xs + count_moread ys"
  by (simp add: count_moread_def)

lemma count_moread_fixed_segments:
  "count_moread (convergence_segment ex) = 0"
  "count_moread (JOB_MAP_get job) = 0"
  "count_moread (solvent_segment ''CPCM'' c) = 0"
  "count_moread (solvent_segment ''SMD'' c) = 0"
  using JOB_MAP_get_cases [of job]
  by (auto simp add: count_moread_def convergence_segment_def solvent_segment_def
      lower_simps lower_char_C)

lemma count_moread_extras:
  "\<not> has_moread ex \<Longrightarrow> count_moread (ex @ [''moread'']) = 1"
  by (simp add: count_moread_def has_moread_def list_ex_iff lower_moread)

lemma bang_toks_moread:
  "bang_toks meth basis job grid cpcm smd (ex @ [''moread'']) None =
     (method_segment meth @ basis_segment basis @ grid_segment grid @
      convergence_segment ex @ JOB_MAP_get job @
      solvent_segment ''CPCM'' cpcm @ solvent_segment ''SMD'' smd) @ ex @ [''moread'']"
  by (simp add: bang_toks_segments convergence_segment_def has_scf_token_append_moread
      forced_segment_def)

lemma count_moread_bang_toks:
  "\<not> has_moread ex \<Longrightarrow>
   count_moread (bang_toks meth basis job grid cpcm smd (ex @ [''moread'']) None) =
     1 + count_moread (method_segment meth @ basis_segment basis @ grid_segment grid)"
  using count_moread_extras [of ex]
  by (simp only: bang_toks_moread count_moread_append count_moread_fixed_segments) simp

text \<open>
  Claim C4, as the code has it. In \<open>write_single_step\<close> and in every step of
  \<open>write_compound\<close>: when a restart file is given and no extra token lowers to \<open>moread\<close>,
  the directive line is built from the extra tokens with one \<open>moread\<close> appended after
  them, as the last token of the line, and the line holds one restart-read token more
  than the method, basis and grid tokens do (exactly one when none of these is such a
  token). Otherwise the line is built from the extra tokens as they are, with nothing
  added.
\<close>

theorem restart_read_token_appended:
  "(truthy moinp \<and> \<not> has_moread (parse_extras extra) \<longrightarrow>
      single_step_header meth basis job grid cpcm smd extra moinp =
        join_bang_tokens
          ((method_segment meth @ basis_segment basis @ grid_segment grid @
            convergence_segment (parse_extras extra) @ JOB_MAP_get job @
            solvent_segment ''CPCM'' cpcm @ solvent_segment ''SMD'' smd) @
           parse_extras extra @ [''moread''])
      \<and> count_moread
          ((method_segment meth @ basis_segment basis @ grid_segment grid @
            convergence_segment (parse_extras extra) @ JOB_MAP_get job @
            solvent_segment ''CPCM'' cpcm @ solvent_segment ''SMD'' smd) @
           parse_extras extra @ [''moread''])
        = 1 + count_moread (method_segment meth @ basis_segment basis @ grid_segment grid))
   \<and> (\<not> (truthy moinp \<and> \<not> has_moread (parse_extras extra)) \<longrightarrow>
        single_step_header meth basis job grid cpcm smd extra moinp =
          make_bang_line meth basis job grid cpcm smd (parse_extras extra) None)
   \<and> (truthy (st_moinp st) \<and> \<not> has_moread (st_extra_tokens st) \<longrightarrow>
        step_bang st =
          join_bang_tokens
            ((method_segment (st_method st) @ basis_segment (st_basis st) @
              grid_segment (st_grid st) @
              convergence_segment (st_extra_tokens st) @ JOB_MAP_get (st_job st) @
              solvent_segment ''CPCM'' (st_cpcm st) @ solvent_segment ''SMD'' (st_smd st)) @
             st_extra_tokens st @ [''moread''])
        \<and> count_moread
            ((method_segment (st_method st) @ basis_segment (st_basis st) @
              grid_segment (st_grid st) @
              convergence_segment (st_extra_tokens st) @ JOB_MAP_get (st_job st) @
              solvent_segment ''CPCM'' (st_cpcm st) @ solvent_segment ''SMD'' (st_smd st)) @
             st_extra_tokens st @ [''moread''])
          = 1 + count_moread (method_segment (st_method st) @ basis_segment (st_basis st) @
                              grid_segment (st_grid st)))
   \<and> (\<not> (truthy (st_moinp st) \<and> \<not> has_moread (st_extra_tokens st)) \<longrightarrow>
        step_bang st =
          make_bang_line (st_method st) (st_basis st) (st_job st) (st_grid st)
            (st_cpcm st) (st_smd st) (st_extra_tokens st) None)"
proof (intro conjI impI)
  assume h: "truthy moinp \<and> \<not> has_moread (parse_extras extra)"
  then show "single_step_header meth basis job grid cpcm smd extra moinp =
        join_bang_tokens
          ((method_segment meth @ basis_segment basis @ grid_segment grid @
            convergence_segment (parse_extras extra) @ JOB_MAP_get job @
            solvent_segment ''CPCM'' cpcm @ solvent_segment ''SMD'' smd) @
           parse_extras extra @ [''moread''])"
    by (simp add: single_step_header_def Let_def make_bang_line_def bang_toks_moread)
  from h have nm: "\<not> has_moread (parse_extras extra)" by simp
  from count_moread_bang_toks [OF nm, of meth basis job grid cpcm smd]
  show "count_moread
          ((method_segment meth @ basis_segment basis @ grid_segment grid @
            convergence_segment (parse_extras extra) @ JOB_MAP_get job @
            solvent_segment ''CPCM'' cpcm @ solvent_segment ''SMD'' smd) @
           parse_extras extra @ [''moread''])
        = 1 + count_moread (method_segment meth @ basis_segment basis @ grid_segment grid)"
    by (simp only: bang_toks_moread)
next
  assume "\<not> (truthy moinp \<and> \<not> has_moread (parse_extras extra))"
  then show "single_step_header meth basis job grid cpcm smd extra moinp =
          make_bang_line meth basis job grid cpcm smd (parse_extras extra) None"
    by (auto simp add: single_step_header_def Let_def)
next
  assume h: "truthy (st_moinp st) \<and> \<not> has_moread (st_extra_tokens st)"
  then show "step_bang st =
          join_bang_tokens
            ((method_segment (st_method st) @ basis_segment (st_basis st) @
              grid_segment (st_grid st) @
              convergence_segment (st_extra_tokens st) @ JOB_MAP_get (st_job st) @
              solvent_segment ''CPCM'' (st_cpcm st) @ solvent_segment ''SMD'' (st_smd st)) @
             st_extra_tokens st @ [''moread''])"
    by (simp add: step_bang_def Let_def make_bang_line_def bang_toks_moread)
  from h have nm: "\<not> has_moread (st_extra_tokens st)" by simp
  from count_moread_bang_toks [OF nm, of "st_method st" "st_basis st"
         "st_job st" "st_grid st" "st_cpcm st" "st_smd st"]
  show "count_moread
            ((method_segment (st_method st) @ basis_segment (st_basis st) @
              grid_segment (st_grid st) @
              convergence_segment (st_extra_tokens st) @ JOB_MAP_get (st_job st) @
              solvent_segment ''CPCM'' (st_cpcm st) @ solvent_segment ''SMD'' (st_smd st)) @
             st_extra_tokens st @ [''moread''])
          = 1 + count_moread (method_segment (st_method st) @ basis_segment (st_basis st) @
                              grid_segment (st_grid st))"
    by (simp only: bang_toks_moread)
next
  assume "\<not> (truthy (st_moinp st) \<and> \<not> has_moread (st_extra_tokens st))"
  then show "step_bang st =
          make_bang_line (st_method st) (st_basis st) (st_job st) (st_grid st)
            (st_cpcm st) (st_smd st) (st_extra_tokens st) None"
    by (auto simp add: step_bang_def Let_def)
qed

theorem restart_read_token_appended_witness:
  "single_step_header (Some ''HF'') (Some ''def2-SVP'') ''sp'' None None None
     (Some [''SlowConv'']) (Some ''guess.gbw'')
     = ''! HF def2-SVP TightSCF SlowConv moread''
   \<and> single_step_header (Some ''HF'') (Some ''def2-SVP'') ''sp'' None None None
       (Some [''MORead,SlowConv'']) (Some ''guess.gbw'')
     = ''! HF def2-SVP TightSCF MORead SlowConv''
   \<and> step_bang \<lparr> st_job = ''sp'', st_method = Some ''HF'', st_basis = Some ''def2-SVP'',
                  st_grid = None, st_cpcm = None, st_smd = None,
                  st_extra_tokens = [''SlowConv''], st_moinp = Some ''guess.gbw'',
                  st_nstates = 10 \<rparr>
     = ''! HF def2-SVP TightSCF SlowConv moread''
   \<and> step_bang \<lparr> st_job = ''sp'', st_method = Some ''HF'', st_basis = Some ''def2-SVP'',
                  st_grid = None, st_cpcm = None, st_smd = None,
                  st_extra_tokens = [''SlowConv''], st_moinp = None,
                  st_nstates = 10 \<rparr>
     = ''! HF def2-SVP TightSCF SlowConv''"
proof -
  have p1: "parse_extras (Some [''SlowConv'']) = [''SlowConv'']" by code_simp
  have p2: "parse_extras (Some [''MORead,SlowConv'']) = [''MORead'', ''SlowConv'']" by code_simp
  have l: "lower ''SlowConv'' = ''slowconv''" "lower ''MORead'' = ''moread''" by code_simp+
  have m1: "\<not> has_moread [''SlowConv'']" and m2: "has_moread [''MORead'', ''SlowConv'']"
    by (simp_all add: has_moread_def l)
  have c: "convergence_segment [''SlowConv''] = [''TightSCF'']"
    "convergence_segment [''MORead'', ''SlowConv''] = [''TightSCF'']"
    by (simp_all add: convergence_segment_def has_scf_token_def l startswith_def)
  have s: "method_segment (Some ''HF'') = [''HF'']"
    "basis_segment (Some ''def2-SVP'') = [''def2-SVP'']"
    "grid_segment None = []" "JOB_MAP_get ''sp'' = []"
    "solvent_segment ''CPCM'' None = []" "solvent_segment ''SMD'' None = []"
    "forced_segment None = []"
    by (simp_all add: method_segment_def basis_segment_def grid_segment_def JOB_MAP_get_def
        JOB_MAP_def solvent_segment_def forced_segment_def truthy_def)
  have t: "truthy (Some ''guess.gbw'')" "\<not> truthy None"
    by (simp_all add: truthy_def)
  from restart_read_token_appended
         [where moinp = "Some ''guess.gbw''" and extra = "Some [''SlowConv'']"
            and meth = "Some ''HF''" and basis = "Some ''def2-SVP''" and job = "''sp''"
            and grid = None and cpcm = None and smd = None]
  have a: "single_step_header (Some ''HF'') (Some ''def2-SVP'') ''sp'' None None None
     (Some [''SlowConv'']) (Some ''guess.gbw'') = ''! HF def2-SVP TightSCF SlowConv moread''"
    by (simp add: p1 m1 t c s join_bang_tokens_def)
  from restart_read_token_appended
         [where moinp = "Some ''guess.gbw''" and extra = "Some [''MORead,SlowConv'']"
            and meth = "Some ''HF''" and basis = "Some ''def2-SVP''" and job = "''sp''"
            and grid = None and cpcm = None and smd = None]
  have b: "single_step_header (Some ''HF'') (Some ''def2-SVP'') ''sp'' None None None
       (Some [''MORead,SlowConv'']) (Some ''guess.gbw'')
     = ''! HF def2-SVP TightSCF MORead SlowConv''"
    by (simp add: p2 m2 t c s join_bang_tokens_def make_bang_line_def bang_toks_segments)
  from restart_read_token_appended
         [where st = "\<lparr> st_job = ''sp'', st_method = Some ''HF'', st_basis = Some ''def2-SVP'',
                  st_grid = None, st_cpcm = None, st_smd = None,
                  st_extra_tokens = [''SlowConv''], st_moinp = Some ''guess.gbw'',
                  st_nstates = 10 \<rparr>"]
  have d: "step_bang \<lparr> st_job = ''sp'', st_method = Some ''HF'', st_basis = Some ''def2-SVP'',
                  st_grid = None, st_cpcm = None, st_smd = None,
                  st_extra_tokens = [''SlowConv''], st_moinp = Some ''guess.gbw'',
                  st_nstates = 10 \<rparr>
     = ''! HF def2-SVP TightSCF SlowConv moread''"
    by (simp add: m1 t c s join_bang_tokens_def)
  from restart_read_token_appended
         [where st = "\<lparr> st_job = ''sp'', st_method = Some ''HF'', st_basis = Some ''def2-SVP'',
                  st_grid = None, st_cpcm = None, st_smd = None,
                  st_extra_tokens = [''SlowConv''], st_moinp = None,
                  st_nstates = 10 \<rparr>"]
  have e: "step_bang \<lparr> st_job = ''sp'', st_method = Some ''HF'', st_basis = Some ''def2-SVP'',
                  st_grid = None, st_cpcm = None, st_smd = None,
                  st_extra_tokens = [''SlowConv''], st_moinp = None,
                  st_nstates = 10 \<rparr>
     = ''! HF def2-SVP TightSCF SlowConv''"
    by (simp add: m1 t c s join_bang_tokens_def make_bang_line_def bang_toks_segments)
  from a b d e show ?thesis by simp
qed

text \<open>
  The claim as worded counts over the whole line. The test of line 137 looks at the extra
  tokens only: with the method \<open>moread\<close>, a restart file and extra tokens without
  \<open>moread\<close>, the line holds two restart-read tokens.
\<close>

theorem restart_read_token_once_counterexample:
  "truthy (Some ''guess.gbw'')
   \<and> has_moread (parse_extras (Some [''SlowConv''])) = False
   \<and> single_step_header (Some ''moread'') (Some ''def2-SVP'') ''sp'' None None None
       (Some [''SlowConv'']) (Some ''guess.gbw'')
     = ''! moread def2-SVP TightSCF SlowConv moread''
   \<and> count_moread (bang_toks (Some ''moread'') (Some ''def2-SVP'') ''sp'' None None None
                      (parse_extras (Some [''SlowConv'']) @ [''moread'']) None) = 2"
proof -
  have p1: "parse_extras (Some [''SlowConv'']) = [''SlowConv'']" by code_simp
  have l: "lower ''SlowConv'' = ''slowconv''" "lower ''moread'' = ''moread''"
    "lower ''def2-SVP'' = ''def2-svp''" "lower ''TightSCF'' = ''tightscf''" by code_simp+
  have m1: "\<not> has_moread [''SlowConv'']"
    by (simp add: has_moread_def l)
  have c: "has_scf_token [''SlowConv'', ''moread''] = False"
    by (simp add: has_scf_token_def l startswith_def)
  show ?thesis
    by (simp add: p1 m1 l c single_step_header_def make_bang_line_def bang_toks_def
        join_bang_tokens_def truthy_def JOB_MAP_get_def JOB_MAP_def count_moread_def)
qed

section \<open>Properties of the literal blocks and of the writers\<close>

lemma rstrip_decompose: "\<exists>ws. s = rstrip s @ ws \<and> (\<forall>c \<in> set ws. is_space c)"
proof -
  have "rev s = takeWhile is_space (rev s) @ dropWhile is_space (rev s)"
    by simp
  then have "s = rev (dropWhile is_space (rev s)) @ rev (takeWhile is_space (rev s))"
    by (metis rev_append rev_rev_ident)
  moreover have "\<forall>c \<in> set (rev (takeWhile is_space (rev s))). is_space c"
    by (auto dest: set_takeWhileD)
  ultimately show ?thesis
    unfolding rstrip_def by blast
qed

lemma rstrip_last: "rstrip s \<noteq> [] \<Longrightarrow> \<not> is_space (last (rstrip s))"
  by (simp add: rstrip_def last_rev hd_dropWhile)

lemma is_space_newline: "is_space CHR 0x0A"
  by (simp add: is_space_def)

lemma rstrip_not_newline_terminated: "rstrip s \<noteq> t @ ''\<newline>''"
proof
  assume e: "rstrip s = t @ ''\<newline>''"
  then have "rstrip s \<noteq> []" by simp
  from rstrip_last [OF this] e show False
    by (simp add: is_space_newline)
qed

lemma read_text_file_found:
  "fs path = Some text \<Longrightarrow> read_text_file fs path = Inr (rstrip text @ ''\<newline>'')"
  by (simp add: read_text_file_def)

lemma dropWhile_dropWhile_weaker:
  "(\<And>x. Q x \<Longrightarrow> P x) \<Longrightarrow> dropWhile P (dropWhile Q xs) = dropWhile P xs"
  by (induction xs) auto

lemma rstrip_trim_trailing_newlines: "rstrip (trim_trailing_newlines text) = rstrip text"
proof -
  have "dropWhile is_space (dropWhile (\<lambda>c. c = CHR 0x0A) (rev text)) =
        dropWhile is_space (rev text)"
    by (rule dropWhile_dropWhile_weaker) (simp add: is_space_newline)
  then show ?thesis
    by (simp add: rstrip_def trim_trailing_newlines_def)
qed

lemma rstrip_id: "s = [] \<or> \<not> is_space (last s) \<Longrightarrow> rstrip s = s"
  by (cases "rev s") (auto simp add: rstrip_def last_rev)

lemma read_text_file_agrees:
  assumes "fs path = Some text"
    and "trim_trailing_newlines text = [] \<or> \<not> is_space (last (trim_trailing_newlines text))"
  shows "read_text_file fs path = Inr (spec_literal_block text)"
  using assms rstrip_id [of "trim_trailing_newlines text"]
  by (simp add: read_text_file_def spec_literal_block_def rstrip_trim_trailing_newlines)

text \<open>
  Claim C7. The claim: the injected text is the file's text with exactly its trailing
  newlines trimmed and one newline put back, every other character kept, trailing
  blanks included (\<open>spec_literal_block\<close>). The comment of line 108 says the same. The code
  calls \<open>rstrip()\<close> with no argument, which removes every trailing whitespace character:
  on a block file whose last line ends in two blanks the blanks are lost. The two agree
  exactly on the files that, their trailing newlines apart, do not end in whitespace
  (\<open>read_text_file_agrees\<close>).
\<close>

theorem read_text_file_trailing_spaces:
  "read_text_file (Map.empty(''geom.txt'' \<mapsto> ''%geom\<newline>  MaxIter 100\<newline>end  \<newline>'')) ''geom.txt''
     = Inr ''%geom\<newline>  MaxIter 100\<newline>end\<newline>''
   \<and> spec_literal_block ''%geom\<newline>  MaxIter 100\<newline>end  \<newline>''
     = ''%geom\<newline>  MaxIter 100\<newline>end  \<newline>''
   \<and> read_text_file (Map.empty(''geom.txt'' \<mapsto> ''%geom\<newline>  MaxIter 100\<newline>end  \<newline>'')) ''geom.txt''
     \<noteq> Inr (spec_literal_block ''%geom\<newline>  MaxIter 100\<newline>end  \<newline>'')"
  by (simp add: read_text_file_def rstrip_def is_space_def spec_literal_block_def
      trim_trailing_newlines_def)

text \<open>
  Claim C6. The text \<open>write_single_step\<close> writes is a function of its inputs other than the
  output path, and reads nothing else. Run twice with the same inputs on two distinct
  output paths, one run after the other, it leaves the same content in both files.
\<close>

theorem single_step_same_content:
  "out1 \<noteq> out2 \<longrightarrow>
     (let fs1 = write_single_step fs out1 xyzfile charge mult meth basis job grid cpcm smd
                  extra pal maxcore_mb nstates moinp pal_style extra_blocks;
          fs2 = write_single_step fs1 out2 xyzfile charge mult meth basis job grid cpcm smd
                  extra pal maxcore_mb nstates moinp pal_style extra_blocks
      in fs2 out1 = fs2 out2
         \<and> fs2 out2 = Some (single_step_content xyzfile charge mult meth basis job grid cpcm
                               smd extra pal maxcore_mb nstates moinp pal_style extra_blocks))"
  by (simp add: write_single_step_def Let_def)

theorem single_step_same_content_witness:
  "(let fs1 = write_single_step Map.empty ''a.inp'' ''mol.xyz'' 0 1 (Some ''HF'') None ''sp'' None
                None None None 4 1000 10 None ''block'' [];
        fs2 = write_single_step fs1 ''b.inp'' ''mol.xyz'' 0 1 (Some ''HF'') None ''sp'' None
                None None None 4 1000 10 None ''block'' []
    in fs2 ''a.inp'' = fs2 ''b.inp''
       \<and> fs2 ''b.inp'' = Some (''! HF TightSCF\<newline>\<newline>%pal\<newline>  nprocs 4\<newline>end\<newline>%MaxCore 1000\<newline>%scf\<newline>  MaxIter 300\<newline>end\<newline>\<newline>\<newline>* xyzfile 0 1 mol.xyz\<newline>\<newline>''))"
proof -
  have ne: "''a.inp'' \<noteq> ''b.inp''" by simp
  have c: "single_step_content ''mol.xyz'' 0 1 (Some ''HF'') None ''sp'' None
                None None None 4 1000 10 None ''block'' []
      = ''! HF TightSCF\<newline>\<newline>%pal\<newline>  nprocs 4\<newline>end\<newline>%MaxCore 1000\<newline>%scf\<newline>  MaxIter 300\<newline>end\<newline>\<newline>\<newline>* xyzfile 0 1 mol.xyz\<newline>\<newline>''"
    by code_simp
  from ne single_step_same_content
         [where ?out1.0 = "''a.inp''" and ?out2.0 = "''b.inp''" and fs = Map.empty
            and xyzfile = "''mol.xyz''" and charge = 0 and mult = 1 and meth = "Some ''HF''"
            and basis = None and job = "''sp''" and grid = None and cpcm = None and smd = None
            and extra = None and pal = 4 and maxcore_mb = 1000 and nstates = 10
            and moinp = None and pal_style = "''block''" and extra_blocks = "[]"]
  show ?thesis
    by (simp add: c Let_def)
qed

section \<open>Properties of the compound writer\<close>

lemma step_body_append:
  "step_body xyzfile charge mult sb i st comp0 = comp0 @ stage_block xyzfile charge mult sb i st"
  by (simp add: step_body_def stage_block_def Let_def split: option.splits)

lemma step_loop_blocks:
  "step_loop xyzfile charge mult sb i steps comp0 =
     comp0 @ concat (map (\<lambda>(k, s). stage_block xyzfile charge mult sb k s) (enumerate i steps))"
proof (induction steps arbitrary: i comp0)
  case Nil
  then show ?case by simp
next
  case (Cons st steps)
  show ?case
    by (simp add: Cons.IH step_body_append)
qed

lemma stage_block_pieces:
  "stage_block xyzfile charge mult sb i st =
     stage_start st @ [scf_block 300] @ literal_piece sb i @
     (if i = 1 then [xyzfile_line charge mult xyzfile @ ''\<newline>''] else []) @
     [''Step_end\<newline>'']"
  by (simp add: stage_block_def step_body_def stage_start_def literal_piece_def Let_def
      split: option.splits)

lemma enumerate_index_ge: "(k, s) \<in> set (enumerate n xs) \<Longrightarrow> n \<le> k"
  by (auto simp add: in_set_enumerate_eq)

lemma lines_aux_cur:
  "lines_aux cur s = (cur @ hd (lines_aux [] s)) # tl (lines_aux [] s)"
proof (induction s arbitrary: cur)
  case Nil
  then show ?case by simp
next
  case (Cons c s)
  show ?case
  proof (cases "c = CHR 0x0A")
    case True
    then show ?thesis by simp
  next
    case False
    have "lines_aux cur (c # s) = lines_aux (cur @ [c]) s"
      using False by simp
    also have "\<dots> = ((cur @ [c]) @ hd (lines_aux [] s)) # tl (lines_aux [] s)"
      by (rule Cons.IH)
    also have "lines_aux [] (c # s) = lines_aux [c] s"
      using False by simp
    then have "((cur @ [c]) @ hd (lines_aux [] s)) # tl (lines_aux [] s) =
               (cur @ hd (lines_aux [] (c # s))) # tl (lines_aux [] (c # s))"
      using Cons.IH [of "[c]"] by simp
    finally show ?thesis .
  qed
qed

lemma lines_of_simps [simp]:
  "lines_of [] = [[]]"
  "lines_of (c # cs) =
     (if c = CHR 0x0A then [] # lines_of cs
      else (c # hd (lines_of cs)) # tl (lines_of cs))"
  using lines_aux_cur [of "[c]" cs] by (simp_all add: lines_of_def)

lemma lines_of_nonempty: "lines_of s \<noteq> []"
  by (induction s) auto

lemma lines_of_newline: "lines_of (a @ CHR 0x0A # b) = lines_of a @ lines_of b"
proof (induction a)
  case Nil
  then show ?case by simp
next
  case (Cons c a)
  then show ?case
    using lines_of_nonempty [of a] by (cases "lines_of a") auto
qed

lemma lines_of_single: "CHR 0x0A \<notin> set s \<Longrightarrow> lines_of s = [s]"
  by (induction s) auto

lemma lines_of_join_aux:
  "lines_of (x @ concat (map ((#) CHR 0x0A) xs)) = lines_of x @ concat (map lines_of xs)"
proof (induction xs arbitrary: x)
  case Nil
  then show ?case by simp
next
  case (Cons y ys)
  have "lines_of (x @ concat (map ((#) CHR 0x0A) (y # ys))) =
        lines_of (x @ CHR 0x0A # (y @ concat (map ((#) CHR 0x0A) ys)))"
    by simp
  also have "\<dots> = lines_of x @ lines_of (y @ concat (map ((#) CHR 0x0A) ys))"
    by (rule lines_of_newline)
  also have "\<dots> = lines_of x @ lines_of y @ concat (map lines_of ys)"
    by (simp only: Cons.IH)
  finally show ?case
    by simp
qed

lemma lines_of_join:
  "ps \<noteq> [] \<Longrightarrow> lines_of (join ''\<newline>'' ps) = concat (map lines_of ps)"
  by (cases ps) (simp_all add: join_Cons lines_of_join_aux)

lemma line_chars: "l \<in> set (lines_of t) \<Longrightarrow> set l \<subseteq> set t"
proof (induction t arbitrary: l)
  case Nil
  then show ?case by simp
next
  case (Cons c t)
  show ?case
  proof (cases "c = CHR 0x0A")
    case True
    with Cons show ?thesis by auto
  next
    case False
    from lines_of_nonempty [of t] obtain h r where hr: "lines_of t = h # r"
      by (cases "lines_of t") auto
    with Cons.prems False have "l = c # h \<or> l \<in> set r" by simp
    then show ?thesis
    proof
      assume "l = c # h"
      moreover from hr Cons.IH [of h] have "set h \<subseteq> set t" by simp
      ultimately show ?thesis by auto
    next
      assume "l \<in> set r"
      with hr Cons.IH [of l] show ?thesis by auto
    qed
  qed
qed

lemma str_nat_chars: "c \<in> set (str_nat n) \<Longrightarrow> 48 \<le> (of_char c :: nat)"
proof (induction n arbitrary: c rule: str_nat.induct)
  case (1 n)
  show ?case
  proof (cases "n < 10")
    case True
    with "1.prems" have "c = char_of (48 + n)"
      by (simp add: str_nat.simps [of n])
    with True show ?thesis by simp
  next
    case False
    with "1.prems" have "c \<in> set (str_nat (n div 10)) \<or> c = char_of (48 + n mod 10)"
      by (auto simp add: str_nat.simps [of n])
    then show ?thesis
    proof
      assume "c \<in> set (str_nat (n div 10))"
      with False "1.IH" show ?thesis by simp
    next
      assume "c = char_of (48 + n mod 10)"
      moreover have "n mod 10 < 10" by simp
      ultimately show ?thesis by simp
    qed
  qed
qed

lemma str_int_chars:
  "c \<in> set (str_int i) \<Longrightarrow> c \<noteq> CHR ''*'' \<and> c \<noteq> CHR 0x0A"
  by (auto simp add: str_int_def dest: str_nat_chars split: if_splits)

lemma compound_comp_blocks:
  "compound_comp xyzfile charge mult (st # rest) sb =
     [''%compound''] @ stage_block xyzfile charge mult sb 1 st @
     concat (map (\<lambda>(k, s). stage_block xyzfile charge mult sb k s) (enumerate 2 rest)) @
     [''EndRun'']"
  by (simp add: compound_comp_def Let_def step_loop_blocks step_body_append numeral_2_eq_2)

lemma concat_map_concat:
  "concat (map g (concat xss)) = concat (map (\<lambda>xs. concat (map g xs)) xss)"
  by (induction xss) simp_all

lemma star_in_geometry_line: "CHR ''*'' \<in> set (xyzfile_line charge mult xyzfile)"
  by (simp add: xyzfile_line_def)

lemma no_star_no_geometry_line:
  "CHR ''*'' \<notin> set t \<Longrightarrow> xyzfile_line charge mult xyzfile \<notin> set (lines_of t)"
  using line_chars [of "xyzfile_line charge mult xyzfile" t]
        star_in_geometry_line [of charge mult xyzfile]
  by auto

lemma geometry_line_no_newline:
  "CHR 0x0A \<notin> set xyzfile \<Longrightarrow> CHR 0x0A \<notin> set (xyzfile_line charge mult xyzfile)"
  by (auto simp add: xyzfile_line_def dest: str_int_chars)

lemma lines_of_geometry_piece:
  assumes "CHR 0x0A \<notin> set xyzfile"
  shows "lines_of (xyzfile_line charge mult xyzfile @ ''\<newline>'') =
           [xyzfile_line charge mult xyzfile, []]"
proof -
  have "lines_of (xyzfile_line charge mult xyzfile @ CHR 0x0A # []) =
        lines_of (xyzfile_line charge mult xyzfile) @ lines_of []"
    by (rule lines_of_newline)
  with lines_of_single [OF geometry_line_no_newline [OF assms, of charge mult]]
  show ?thesis by simp
qed

lemma set_join: "set (join sep ps) \<subseteq> set sep \<union> \<Union> (set ` set ps)"
  by (cases ps) (auto simp add: join_Cons)

lemma set_rstrip: "set (rstrip s) \<subseteq> set s"
  using set_dropWhileD [of _ is_space "rev s"] by (auto simp add: rstrip_def)

lemma set_strip: "set (strip s) \<subseteq> set s"
  using set_dropWhileD [of _ is_space "rstrip s"] set_rstrip [of s]
  by (auto simp add: strip_def lstrip_def)

lemma header_no_star: "CHR ''*'' \<notin> set (compound_header pal maxcore_mb pal_style)"
proof -
  have "CHR ''*'' \<notin> set (join ''\<newline>''
          ((if pal_style = ''bang'' then [''! PAL'' @ str_int pal]
            else if pal_style = ''block''
            then [''%pal\<newline>  nprocs '' @ str_int pal @ ''\<newline>end'']
            else []) @ [''%MaxCore '' @ str_int maxcore_mb]))"
    using set_join [of "''\<newline>''"
          "(if pal_style = ''bang'' then [''! PAL'' @ str_int pal]
            else if pal_style = ''block''
            then [''%pal\<newline>  nprocs '' @ str_int pal @ ''\<newline>end'']
            else []) @ [''%MaxCore '' @ str_int maxcore_mb]"]
    by (auto dest: str_int_chars split: if_splits)
  moreover have "compound_header pal maxcore_mb pal_style =
      strip (join ''\<newline>''
          ((if pal_style = ''bang'' then [''! PAL'' @ str_int pal]
            else if pal_style = ''block''
            then [''%pal\<newline>  nprocs '' @ str_int pal @ ''\<newline>end'']
            else []) @ [''%MaxCore '' @ str_int maxcore_mb]))"
    by (simp add: compound_header_def Let_def)
  ultimately show ?thesis
    using set_strip by fastforce
qed

lemma block_no_star:
  "CHR ''*'' \<notin> set (scf_block n)" "CHR ''*'' \<notin> set (tddft_block n)"
  by (auto simp add: scf_block_def tddft_block_def dest: str_int_chars)

lemma lines_of_blank_line:
  "lines_of (h @ CHR 0x0A # CHR 0x0A # r) = lines_of h @ [] # lines_of r"
proof -
  have "lines_of (h @ CHR 0x0A # (CHR 0x0A # r)) = lines_of h @ lines_of (CHR 0x0A # r)"
    by (rule lines_of_newline)
  then show ?thesis by simp
qed

lemma lines_of_final_newline: "lines_of (b @ ''\<newline>'') = lines_of b @ [[]]"
proof -
  have "lines_of (b @ CHR 0x0A # []) = lines_of b @ lines_of []"
    by (rule lines_of_newline)
  then show ?thesis by simp
qed

lemma lines_of_compound_content:
  "lines_of (compound_content xyzfile charge mult steps pal maxcore_mb pal_style
               global_extra_blocks sb) =
     preamble_lines pal maxcore_mb pal_style global_extra_blocks @
     concat (map lines_of (compound_comp xyzfile charge mult steps sb)) @ [[]]"
proof -
  have ne: "compound_comp xyzfile charge mult steps sb \<noteq> []"
    by (simp add: compound_comp_def Let_def)
  have body: "lines_of (join ''\<newline>'' (compound_comp xyzfile charge mult steps sb) @ ''\<newline>'') =
      concat (map lines_of (compound_comp xyzfile charge mult steps sb)) @ [[]]"
    by (simp only: lines_of_final_newline lines_of_join [OF ne])
  show ?thesis
    unfolding compound_content_def Let_def preamble_lines_def
    using body
    by (simp add: lines_of_blank_line del: lines_of_simps)
qed

lemma stage_lines_pieces:
  "stage_lines xyzfile charge mult sb k st =
     concat (map lines_of (stage_start st)) @ lines_of (scf_block 300) @
     concat (map lines_of (literal_piece sb k)) @
     (if k = 1 then lines_of (xyzfile_line charge mult xyzfile @ ''\<newline>'') else []) @
     [''Step_end'', []]"
  by (simp add: stage_lines_def stage_block_pieces)

lemma lines_of_compound_stages:
  "lines_of (compound_content xyzfile charge mult (st # rest) pal maxcore_mb pal_style
               global_extra_blocks sb) =
     preamble_lines pal maxcore_mb pal_style global_extra_blocks @ [''%compound''] @
     stage_lines xyzfile charge mult sb 1 st @
     concat (map (\<lambda>(k, s). stage_lines xyzfile charge mult sb k s) (enumerate 2 rest)) @
     [''EndRun'', []]"
proof -
  have "concat (map lines_of
          (concat (map (\<lambda>(k, s). stage_block xyzfile charge mult sb k s) (enumerate 2 rest)))) =
        concat (map (\<lambda>(k, s). stage_lines xyzfile charge mult sb k s) (enumerate 2 rest))"
    by (simp add: concat_map_concat stage_lines_def case_prod_unfold comp_def)
  moreover have "lines_of ''%compound'' = [''%compound'']" "lines_of ''EndRun'' = [''EndRun'']"
    by simp_all
  ultimately show ?thesis
    by (simp add: lines_of_compound_content compound_comp_blocks stage_lines_def
        del: lines_of_simps)
qed

lemma geometry_line_not_marker:
  "xyzfile_line charge mult xyzfile \<noteq> []"
  "xyzfile_line charge mult xyzfile \<noteq> ''Step_end''"
  "xyzfile_line charge mult xyzfile \<noteq> ''New_step''"
  by (simp_all add: xyzfile_line_def)

lemma passed_through_stage:
  assumes "\<forall>t \<in> set (passed_through steps gb sb). P t"
    and "(k, s) \<in> set (enumerate 1 steps)"
  shows "P (step_bang s)"
    and "truthy (st_moinp s) \<Longrightarrow> P (moinp_line (the (st_moinp s)))"
    and "\<forall>t \<in> set (literal_piece sb k). P t"
proof -
  have mem: "t \<in> set (passed_through steps gb sb)"
    if "t \<in> set ([step_bang s] @
                    (if truthy (st_moinp s) then [moinp_line (the (st_moinp s))] else []) @
                    literal_piece sb k)" for t
    unfolding passed_through_def using assms(2) that by fastforce
  from mem assms(1) show "P (step_bang s)" by simp
  from mem assms(1) show "P (moinp_line (the (st_moinp s)))" if "truthy (st_moinp s)"
    using that by simp
  from mem assms(1) show "\<forall>t \<in> set (literal_piece sb k). P t" by simp
qed

lemma stage_prefix_no_geometry_line:
  assumes "xyzfile_line charge mult xyzfile \<notin> set (lines_of (step_bang s))"
    and "truthy (st_moinp s) \<Longrightarrow>
         xyzfile_line charge mult xyzfile \<notin> set (lines_of (moinp_line (the (st_moinp s))))"
    and "\<forall>t \<in> set (literal_piece sb k). xyzfile_line charge mult xyzfile \<notin> set (lines_of t)"
  shows "xyzfile_line charge mult xyzfile
           \<notin> set (concat (map lines_of (stage_start s)) @ lines_of (scf_block 300) @
                  concat (map lines_of (literal_piece sb k)))"
proof -
  have "xyzfile_line charge mult xyzfile \<notin> set (lines_of (scf_block 300))"
    "xyzfile_line charge mult xyzfile \<notin> set (lines_of (tddft_block (st_nstates s)))"
    by (simp_all add: no_star_no_geometry_line block_no_star)
  with assms show ?thesis
    by (auto simp add: stage_start_def geometry_line_not_marker)
qed

text \<open>
  Claim C2, as the code has it. The lines of an emitted compound document with at least
  one stage are: the lines before \<open>%compound\<close>, \<open>%compound\<close>, the lines of the block of
  stage 1, those of the blocks of stages 2 to N in order, \<open>EndRun\<close> and an empty line.
  With a geometry reference that holds no newline, the block of stage 1 ends with the
  geometry-binding line, an empty line, \<open>Step_end\<close> and an empty line, after the lines
  of its SCF section and of its literal piece. The assembler writes the geometry-binding
  line nowhere else. The texts it passes through from the caller (directive lines,
  restart sections, literal pieces of the stages, the global literal piece) enter the
  document as they are: provided none of their lines equals the geometry-binding line,
  that line stands neither before \<open>%compound\<close>, nor earlier in the block of stage 1, nor
  in the block of a later stage, and the document holds it exactly once.
\<close>

theorem geometry_line_once_in_first_stage:
  "lines_of (compound_content xyzfile charge mult (st # rest) pal maxcore_mb pal_style
               global_extra_blocks sb) =
     preamble_lines pal maxcore_mb pal_style global_extra_blocks @ [''%compound''] @
     stage_lines xyzfile charge mult sb 1 st @
     concat (map (\<lambda>(k, s). stage_lines xyzfile charge mult sb k s) (enumerate 2 rest)) @
     [''EndRun'', []]
   \<and> (CHR 0x0A \<notin> set xyzfile \<longrightarrow>
        stage_lines xyzfile charge mult sb 1 st =
          concat (map lines_of (stage_start st)) @ lines_of (scf_block 300) @
          concat (map lines_of (literal_piece sb 1)) @
          [xyzfile_line charge mult xyzfile, [], ''Step_end'', []])
   \<and> (CHR 0x0A \<notin> set xyzfile \<and>
       (\<forall>t \<in> set (passed_through (st # rest) global_extra_blocks sb).
          xyzfile_line charge mult xyzfile \<notin> set (lines_of t)) \<longrightarrow>
        xyzfile_line charge mult xyzfile
          \<notin> set (preamble_lines pal maxcore_mb pal_style global_extra_blocks)
        \<and> xyzfile_line charge mult xyzfile
            \<notin> set (concat (map lines_of (stage_start st)) @ lines_of (scf_block 300) @
                   concat (map lines_of (literal_piece sb 1)))
        \<and> (\<forall>(k, s) \<in> set (enumerate 2 rest).
              xyzfile_line charge mult xyzfile \<notin> set (stage_lines xyzfile charge mult sb k s))
        \<and> count_list
            (lines_of (compound_content xyzfile charge mult (st # rest) pal maxcore_mb
                         pal_style global_extra_blocks sb))
            (xyzfile_line charge mult xyzfile) = 1)"
proof (intro conjI impI)
  let ?L = "xyzfile_line charge mult xyzfile"
  let ?pre = "concat (map lines_of (stage_start st)) @ lines_of (scf_block 300) @
              concat (map lines_of (literal_piece sb 1))"
  let ?later = "concat (map (\<lambda>(k, s). stage_lines xyzfile charge mult sb k s)
                  (enumerate 2 rest))"
  show doc: "lines_of (compound_content xyzfile charge mult (st # rest) pal maxcore_mb pal_style
               global_extra_blocks sb) =
     preamble_lines pal maxcore_mb pal_style global_extra_blocks @ [''%compound''] @
     stage_lines xyzfile charge mult sb 1 st @ ?later @ [''EndRun'', []]"
    by (rule lines_of_compound_stages)
  show first: "stage_lines xyzfile charge mult sb 1 st =
          concat (map lines_of (stage_start st)) @ lines_of (scf_block 300) @
          concat (map lines_of (literal_piece sb 1)) @ [?L, [], ''Step_end'', []]"
    if nl: "CHR 0x0A \<notin> set xyzfile"
    by (simp add: stage_lines_pieces lines_of_geometry_piece [OF nl] del: lines_of_simps)
  assume h: "CHR 0x0A \<notin> set xyzfile \<and>
       (\<forall>t \<in> set (passed_through (st # rest) global_extra_blocks sb).
          ?L \<notin> set (lines_of t))"
  then have nl: "CHR 0x0A \<notin> set xyzfile"
    and pt: "\<forall>t \<in> set (passed_through (st # rest) global_extra_blocks sb).
               ?L \<notin> set (lines_of t)"
    by simp_all
  have g: "global_extra_blocks \<noteq> [] \<Longrightarrow>
           ?L \<notin> set (lines_of (rstrip (join ''\<newline>'' global_extra_blocks)))"
    using pt by (simp add: passed_through_def)
  show pre_amble: "?L \<notin> set (preamble_lines pal maxcore_mb pal_style global_extra_blocks)"
    using g no_star_no_geometry_line [OF header_no_star, of charge mult xyzfile pal maxcore_mb
            pal_style]
    by (auto simp add: preamble_lines_def geometry_line_not_marker)
  have m1: "(1, st) \<in> set (enumerate 1 (st # rest))"
    by simp
  show pre: "?L \<notin> set ?pre"
    by (rule stage_prefix_no_geometry_line)
       (use passed_through_stage [OF pt m1] in auto)
  show later: "\<forall>(k, s) \<in> set (enumerate 2 rest).
              ?L \<notin> set (stage_lines xyzfile charge mult sb k s)"
  proof (clarify)
    fix k s
    assume m: "(k, s) \<in> set (enumerate 2 rest)"
      and g: "?L \<in> set (stage_lines xyzfile charge mult sb k s)"
    from m have "2 \<le> k" by (rule enumerate_index_ge)
    then have k1: "k \<noteq> 1" by simp
    from m have mk: "(k, s) \<in> set (enumerate 1 (st # rest))"
      by (simp add: numeral_2_eq_2)
    have "?L \<notin> set (concat (map lines_of (stage_start s)) @ lines_of (scf_block 300) @
                  concat (map lines_of (literal_piece sb k)))"
      by (rule stage_prefix_no_geometry_line)
         (use passed_through_stage [OF pt mk] in auto)
    with k1 have "?L \<notin> set (stage_lines xyzfile charge mult sb k s)"
      by (simp add: stage_lines_pieces geometry_line_not_marker del: lines_of_simps)
    with g show False by simp
  qed
  then have "?L \<notin> set ?later" by auto
  then have c_later: "count_list ?later ?L = 0"
    by (simp only: count_list_0_iff not_False_eq_True)
  from pre have c_pre: "count_list ?pre ?L = 0"
    by (simp only: count_list_0_iff not_False_eq_True)
  from pre_amble have c_amble:
    "count_list (preamble_lines pal maxcore_mb pal_style global_extra_blocks) ?L = 0"
    by (simp only: count_list_0_iff not_False_eq_True)
  have four: "count_list [?L, [], ''Step_end'', []] ?L = 1"
    by (simp add: geometry_line_not_marker geometry_line_not_marker [symmetric])
  have c_first: "count_list (stage_lines xyzfile charge mult sb 1 st) ?L = 1"
    using c_pre four unfolding first [OF nl] count_list_append by linarith
  have ends: "count_list [''%compound''] ?L = 0" "count_list [''EndRun'', []] ?L = 0"
    by (simp_all add: xyzfile_line_def)
  show "count_list
            (lines_of (compound_content xyzfile charge mult (st # rest) pal maxcore_mb
                         pal_style global_extra_blocks sb)) ?L = 1"
    using c_amble c_first c_later ends unfolding doc count_list_append by linarith
qed

theorem geometry_line_once_in_first_stage_witness:
  "lines_of
     (compound_content ''mol.xyz'' 0 1
        [\<lparr> st_job = ''optfreq'', st_method = Some ''HF'', st_basis = Some ''def2-SVP'',
            st_grid = None, st_cpcm = None, st_smd = None, st_extra_tokens = [],
            st_moinp = None, st_nstates = 10 \<rparr>,
         \<lparr> st_job = ''sp'', st_method = Some ''HF'', st_basis = Some ''def2-TZVP'',
            st_grid = None, st_cpcm = None, st_smd = None, st_extra_tokens = [],
            st_moinp = None, st_nstates = 10 \<rparr>]
        32 2000 ''bang'' [''%g\<newline>''] (Map.empty(2 \<mapsto> [''%basis\<newline>end\<newline>''])))
   = [''! PAL32'', ''%MaxCore 2000'', [], ''%g'', [],
      ''%compound'',
      ''New_step'', ''! HF def2-SVP TightSCF Opt Freq'', ''%scf'', ''  MaxIter 300'', ''end'',
      ''* xyzfile 0 1 mol.xyz'', [], ''Step_end'', [],
      ''New_step'', ''! HF def2-TZVP TightSCF'', ''%scf'', ''  MaxIter 300'', ''end'',
      ''%basis'', ''end'', ''Step_end'', [],
      ''EndRun'', []]
   \<and> count_list
       (lines_of
          (compound_content ''mol.xyz'' 0 1
             [\<lparr> st_job = ''optfreq'', st_method = Some ''HF'', st_basis = Some ''def2-SVP'',
                 st_grid = None, st_cpcm = None, st_smd = None, st_extra_tokens = [],
                 st_moinp = None, st_nstates = 10 \<rparr>,
              \<lparr> st_job = ''sp'', st_method = Some ''HF'', st_basis = Some ''def2-TZVP'',
                 st_grid = None, st_cpcm = None, st_smd = None, st_extra_tokens = [],
                 st_moinp = None, st_nstates = 10 \<rparr>]
             32 2000 ''bang'' [''%g\<newline>''] (Map.empty(2 \<mapsto> [''%basis\<newline>end\<newline>'']))))
       ''* xyzfile 0 1 mol.xyz'' = 1"
proof -
  let ?s1 = "\<lparr> st_job = ''optfreq'', st_method = Some ''HF'', st_basis = Some ''def2-SVP'',
            st_grid = None, st_cpcm = None, st_smd = None, st_extra_tokens = [],
            st_moinp = None, st_nstates = 10 \<rparr>"
  let ?s2 = "\<lparr> st_job = ''sp'', st_method = Some ''HF'', st_basis = Some ''def2-TZVP'',
            st_grid = None, st_cpcm = None, st_smd = None, st_extra_tokens = [],
            st_moinp = None, st_nstates = 10 \<rparr>"
  let ?sb = "Map.empty(2 \<mapsto> [''%basis\<newline>end\<newline>''])"
  have x: "xyzfile_line 0 1 ''mol.xyz'' = ''* xyzfile 0 1 mol.xyz''"
    by code_simp
  have nl: "CHR 0x0A \<notin> set ''mol.xyz''"
    by simp
  have pt: "\<forall>t \<in> set (passed_through [?s1, ?s2] [''%g\<newline>''] ?sb).
              xyzfile_line 0 1 ''mol.xyz'' \<notin> set (lines_of t)"
    by code_simp
  have doc: "lines_of
     (compound_content ''mol.xyz'' 0 1 [?s1, ?s2] 32 2000 ''bang'' [''%g\<newline>''] ?sb)
   = [''! PAL32'', ''%MaxCore 2000'', [], ''%g'', [],
      ''%compound'',
      ''New_step'', ''! HF def2-SVP TightSCF Opt Freq'', ''%scf'', ''  MaxIter 300'', ''end'',
      ''* xyzfile 0 1 mol.xyz'', [], ''Step_end'', [],
      ''New_step'', ''! HF def2-TZVP TightSCF'', ''%scf'', ''  MaxIter 300'', ''end'',
      ''%basis'', ''end'', ''Step_end'', [],
      ''EndRun'', []]"
    by code_simp
  note t = geometry_line_once_in_first_stage
             [where xyzfile = "''mol.xyz''" and charge = 0 and mult = 1 and st = ?s1
                and rest = "[?s2]" and pal = 32 and maxcore_mb = 2000
                and pal_style = "''bang''" and global_extra_blocks = "[''%g\<newline>'']"
                and sb = ?sb]
  note c = t [THEN conjunct2, THEN conjunct2, THEN mp, OF conjI [OF nl pt]]
  note n = c [THEN conjunct2, THEN conjunct2, THEN conjunct2]
  from doc n [unfolded x] show ?thesis
    by (rule conjI)
qed

text \<open>
  The claim as worded counts the lines of the emitted document, and literal blocks enter
  it as they are: a literal block of stage 2 that holds the line \<open>* xyzfile 0 1 mol.xyz\<close>
  puts the geometry-binding line into the document a second time, inside the block of
  stage 2.
\<close>

theorem geometry_line_twice_counterexample:
  "count_list
     (lines_of
        (compound_content ''mol.xyz'' 0 1
           [\<lparr> st_job = ''optfreq'', st_method = Some ''HF'', st_basis = Some ''def2-SVP'',
               st_grid = None, st_cpcm = None, st_smd = None, st_extra_tokens = [],
               st_moinp = None, st_nstates = 10 \<rparr>,
            \<lparr> st_job = ''sp'', st_method = Some ''HF'', st_basis = Some ''def2-TZVP'',
               st_grid = None, st_cpcm = None, st_smd = None, st_extra_tokens = [],
               st_moinp = None, st_nstates = 10 \<rparr>]
           32 2000 ''bang'' [] (Map.empty(2 \<mapsto> [''* xyzfile 0 1 mol.xyz\<newline>'']))))
     ''* xyzfile 0 1 mol.xyz'' = 2
   \<and> stage_lines ''mol.xyz'' 0 1 (Map.empty(2 \<mapsto> [''* xyzfile 0 1 mol.xyz\<newline>''])) 2
       \<lparr> st_job = ''sp'', st_method = Some ''HF'', st_basis = Some ''def2-TZVP'',
          st_grid = None, st_cpcm = None, st_smd = None, st_extra_tokens = [],
          st_moinp = None, st_nstates = 10 \<rparr>
     = [''New_step'', ''! HF def2-TZVP TightSCF'', ''%scf'', ''  MaxIter 300'', ''end'',
        ''* xyzfile 0 1 mol.xyz'', ''Step_end'', []]
   \<and> xyzfile_line 0 1 ''mol.xyz'' = ''* xyzfile 0 1 mol.xyz''"
  by code_simp


section \<open>Properties of main\<close>















end
